theory Spec2Isabelle
  imports Main
begin

section \<open>Data model\<close>

text \<open>
  The orchestrator \<^verbatim>\<open>HandleCacheRequest\<close> of
  \<^verbatim>\<open>application/handle_cache_request.py\<close> and the endpoint \<^verbatim>\<open>cache_dependencies\<close> of
  \<^verbatim>\<open>interfaces/api.py\<close>.  Python \<^verbatim>\<open>bytes\<close> and \<^verbatim>\<open>str\<close> are both character lists, a
  \<^verbatim>\<open>Dict[str, str]\<close> that is only looked up is a map, and a dictionary whose keys are
  iterated (an entry of the support list) is an association list read through
  \<open>map_of\<close>.
\<close>

type_synonym bytes = string
type_synonym versions = "string \<rightharpoonup> string"
type_synonym directory = "string \<rightharpoonup> bytes"

datatype DependencyFile = DependencyFile (relative_path: string) (content: bytes)

datatype FileData = FileData (fd_relative_path: string) (fd_content: bytes)

text \<open>
  \<^verbatim>\<open>domain.dependency_set.DependencySet\<close> is imported, its class is not among the
  sources.  The record holds the keyword arguments the orchestrator constructs it with.
\<close>

record DependencySet =
  ds_manager :: string
  ds_files :: "DependencyFile list"
  node_version :: "string option"
  npm_version :: "string option"
  php_version :: "string option"

record CacheRequest =
  req_manager :: string
  req_versions :: versions
  lockfile_content :: bytes
  manifest_content :: bytes
  req_custom_args :: "string list option"

record CacheResponse =
  resp_bundle_hash :: string
  resp_download_url :: string
  is_cache_hit :: bool

record InstallationResult =
  success :: bool
  result_files :: "FileData list"
  error_message :: "string option"

datatype error = ValueError string | RuntimeError string

section \<open>Collaborators\<close>

text \<open>
  The installer, the isolation capability and the cache repository are imported objects
  whose classes are not among the sources.  Each call of one of their methods is a
  function on a world state \<open>'s\<close> (the file system and the processes), which the
  orchestrator threads through its calls in program order.  The scratch directory a
  request stages is passed to the installer as the map from the file names written
  to their contents.
\<close>

record 's Installer =
  manifest_name :: string
  lockfile_name :: string
  install :: "directory \<Rightarrow> 's \<Rightarrow> InstallationResult \<times> 's"

record 's DockerUtils =
  is_available :: "'s \<Rightarrow> bool \<times> 's"
  du_install_with_docker ::
    "directory \<Rightarrow> string \<Rightarrow> versions \<Rightarrow> string list option \<Rightarrow> 's \<Rightarrow> InstallationResult \<times> 's"

text \<open>
  \<open>index_truthy\<close> is Python's truth value of the object \<^verbatim>\<open>get_index\<close> returns when
  it is not \<^verbatim>\<open>None\<close>.
\<close>

record ('s, 'i) CacheRepository =
  get_index :: "string \<Rightarrow> 's \<Rightarrow> 'i option \<times> 's"
  index_truthy :: "'i \<Rightarrow> bool"
  has_bundle :: "string \<Rightarrow> 's \<Rightarrow> bool \<times> 's"
  store_blob :: "string \<Rightarrow> bytes \<Rightarrow> 's \<Rightarrow> 's"
  save_index :: "string \<Rightarrow> string \<Rightarrow> string \<Rightarrow> (string \<rightharpoonup> string) \<Rightarrow> 's \<Rightarrow> 's"
  generate_bundle_zip :: "string \<Rightarrow> 's \<Rightarrow> 's"

text \<open>
  The fields of \<^verbatim>\<open>HandleCacheRequest.__init__\<close>, followed by the two hash functions
  the module imports: \<open>dep_set_hash\<close> is \<^verbatim>\<open>DependencySet.calculate_bundle_hash\<close> and
  \<open>blob_hash\<close> is \<^verbatim>\<open>hashlib.new(HASH_ALGORITHM)\<close> followed by \<^verbatim>\<open>hexdigest\<close>.
\<close>

record ('s, 'i) HandleCacheRequest =
  cache_repository :: "('s, 'i) CacheRepository"
  installer_factory :: "string \<Rightarrow> versions \<Rightarrow> string list option \<Rightarrow> 's Installer"
  docker_utils :: "'s DockerUtils option"
  supported_versions :: "string \<rightharpoonup> (string \<times> string) list list"
  use_docker_on_version_mismatch :: bool
  dep_set_hash :: "DependencySet \<Rightarrow> string"
  blob_hash :: "bytes \<Rightarrow> string"

section \<open>The orchestrator\<close>

text \<open>The constructor call \<^verbatim>\<open>DependencySet(manager=..., files=..., **kwargs)\<close>.\<close>

definition DependencySet_init ::
    "string \<Rightarrow> DependencyFile list \<Rightarrow> (string \<rightharpoonup> string) \<Rightarrow> DependencySet" where
  "DependencySet_init manager files kwargs =
     \<lparr>ds_manager = manager, ds_files = files,
      node_version = kwargs ''node_version'',
      npm_version = kwargs ''npm_version'',
      php_version = kwargs ''php_version''\<rparr>"

definition get_version_kwargs :: "string \<Rightarrow> versions \<Rightarrow> (string \<rightharpoonup> string)" where
  "get_version_kwargs manager versions =
     (let kwargs = Map.empty in
      if manager = ''npm'' \<or> manager = ''yarn'' then
        (let kwargs =
               (if versions ''node'' \<noteq> None
                then kwargs(''node_version'' := versions ''node'')
                else if versions ''runtime'' \<noteq> None
                then kwargs(''node_version'' := versions ''runtime'')
                else kwargs);
             kwargs =
               (if versions ''npm'' \<noteq> None
                then kwargs(''npm_version'' := versions ''npm'')
                else if versions ''yarn'' \<noteq> None
                then kwargs(''npm_version'' := versions ''yarn'')
                else if versions ''package_manager'' \<noteq> None
                then kwargs(''npm_version'' := versions ''package_manager'')
                else kwargs)
         in kwargs)
      else if manager = ''composer'' then
        (if versions ''php'' \<noteq> None
         then kwargs(''php_version'' := versions ''php'')
         else if versions ''runtime'' \<noteq> None
         then kwargs(''php_version'' := versions ''runtime'')
         else kwargs)
      else kwargs)"

definition calculate_bundle_hash :: "('s, 'i) HandleCacheRequest \<Rightarrow> CacheRequest \<Rightarrow> string" where
  "calculate_bundle_hash self request =
     (let files = [];
          installer = installer_factory self (req_manager request) (req_versions request)
                        (req_custom_args request);
          files = (if lockfile_content request \<noteq> []
                   then files @ [DependencyFile (lockfile_name installer) (lockfile_content request)]
                   else files);
          files = files @ [DependencyFile (manifest_name installer) (manifest_content request)];
          dep_set = DependencySet_init (req_manager request) files
                      (get_version_kwargs (req_manager request) (req_versions request))
      in dep_set_hash self dep_set)"

text \<open>
  The inner loop of \<^verbatim>\<open>_is_version_supported\<close> over \<^verbatim>\<open>supported.keys()\<close>: it leaves with
  \<^verbatim>\<open>match = False\<close> at the first key that is missing or differs.
\<close>

fun keys_match :: "(string \<times> string) list \<Rightarrow> versions \<Rightarrow> string list \<Rightarrow> bool" where
  "keys_match supported normalized_versions [] = True"
| "keys_match supported normalized_versions (key # keys) =
     (if normalized_versions key = None then False
      else if map_of supported key \<noteq> normalized_versions key then False
      else keys_match supported normalized_versions keys)"

text \<open>The outer loop over the support list: it returns at the first matching entry.\<close>

fun supported_loop :: "(string \<times> string) list list \<Rightarrow> versions \<Rightarrow> bool" where
  "supported_loop [] normalized_versions = False"
| "supported_loop (supported # rest) normalized_versions =
     (if keys_match supported normalized_versions (map fst supported) then True
      else supported_loop rest normalized_versions)"

definition is_version_supported ::
    "('s, 'i) HandleCacheRequest \<Rightarrow> string \<Rightarrow> versions \<Rightarrow> bool" where
  "is_version_supported self manager versions =
     (case supported_versions self manager of
        None \<Rightarrow> True
      | Some supported_list \<Rightarrow>
          if supported_list = [] then True
          else
            (let normalized_versions = Map.empty;
                 normalized_versions =
                   (if manager = ''npm'' \<or> manager = ''yarn'' then
                      (let nv =
                             (if versions ''node'' \<noteq> None
                              then normalized_versions(''runtime'' := versions ''node'')
                              else if versions ''runtime'' \<noteq> None
                              then normalized_versions(''runtime'' := versions ''runtime'')
                              else normalized_versions)
                       in if versions ''npm'' \<noteq> None
                          then nv(''package_manager'' := versions ''npm'')
                          else if versions ''yarn'' \<noteq> None
                          then nv(''package_manager'' := versions ''yarn'')
                          else if versions ''package_manager'' \<noteq> None
                          then nv(''package_manager'' := versions ''package_manager'')
                          else nv)
                    else if manager = ''composer'' then
                      (if versions ''php'' \<noteq> None
                       then normalized_versions(''runtime'' := versions ''php'')
                       else if versions ''runtime'' \<noteq> None
                       then normalized_versions(''runtime'' := versions ''runtime'')
                       else normalized_versions)
                    else versions)
             in supported_loop supported_list normalized_versions))"

definition unsupported_message :: "string \<Rightarrow> string" where
  "unsupported_message manager =
     ''Unsupported '' @ manager @ '' version and Docker is not available''"

definition determine_installation_method ::
    "('s, 'i) HandleCacheRequest \<Rightarrow> string \<Rightarrow> versions \<Rightarrow> 's \<Rightarrow> (error + string) \<times> 's" where
  "determine_installation_method self manager versions s =
     (if is_version_supported self manager versions then (Inr ''native'', s)
      else if use_docker_on_version_mismatch self then
        (case docker_utils self of
           None \<Rightarrow> (Inl (ValueError (unsupported_message manager)), s)
         | Some du \<Rightarrow>
             (case is_available du s of
                (available, s') \<Rightarrow>
                  if available then (Inr ''docker'', s')
                  else (Inl (ValueError (unsupported_message manager)), s')))
      else (Inl (ValueError (unsupported_message manager)), s))"

definition install_natively ::
    "('s, 'i) HandleCacheRequest \<Rightarrow> CacheRequest \<Rightarrow> 's \<Rightarrow> InstallationResult \<times> 's" where
  "install_natively self request s =
     (let temp_dir = Map.empty;
          installer = installer_factory self (req_manager request) (req_versions request)
                        (req_custom_args request);
          temp_dir = temp_dir(manifest_name installer \<mapsto> manifest_content request);
          temp_dir = (if lockfile_content request \<noteq> []
                      then temp_dir(lockfile_name installer \<mapsto> lockfile_content request)
                      else temp_dir)
      in install installer temp_dir s)"

definition install_with_docker ::
    "('s, 'i) HandleCacheRequest \<Rightarrow> CacheRequest \<Rightarrow> 's \<Rightarrow> InstallationResult \<times> 's" where
  "install_with_docker self request s =
     (case docker_utils self of
        None \<Rightarrow>
          (\<lparr>success = False, result_files = [],
            error_message = Some ''Docker utils not available''\<rparr>, s)
      | Some du \<Rightarrow>
          (let temp_dir = Map.empty;
               installer = installer_factory self (req_manager request) (req_versions request)
                             (req_custom_args request);
               temp_dir = temp_dir(manifest_name installer \<mapsto> manifest_content request);
               temp_dir = (if lockfile_content request \<noteq> []
                           then temp_dir(lockfile_name installer \<mapsto> lockfile_content request)
                           else temp_dir)
           in du_install_with_docker du temp_dir (req_manager request) (req_versions request)
                (req_custom_args request) s))"

text \<open>
  The loop of \<^verbatim>\<open>_store_dependency_set\<close> over the files: each file is hashed, stored as
  a blob and entered in \<^verbatim>\<open>index_data\<close>.
\<close>

fun store_files ::
    "('s, 'i) HandleCacheRequest \<Rightarrow> DependencyFile list \<Rightarrow> (string \<rightharpoonup> string) \<Rightarrow> 's
      \<Rightarrow> (string \<rightharpoonup> string) \<times> 's" where
  "store_files self [] index_data s = (index_data, s)"
| "store_files self (file # rest) index_data s =
     (let file_hash = blob_hash self (content file);
          s = store_blob (cache_repository self) file_hash (content file) s;
          index_data = index_data(relative_path file \<mapsto> file_hash)
      in store_files self rest index_data s)"

text \<open>
  The manager-version descriptor that \<^verbatim>\<open>_store_dependency_set\<close> computes between the
  loop and \<^verbatim>\<open>save_index\<close>.  \<^verbatim>\<open>node_ver and npm_ver\<close> is Python's truth value: neither
  \<^verbatim>\<open>None\<close> nor the empty string.
\<close>

definition manager_version_of :: "DependencySet \<Rightarrow> string" where
  "manager_version_of dependency_set =
     (let manager = ds_manager dependency_set in
      if manager = ''npm'' then
        (case (node_version dependency_set, npm_version dependency_set) of
           (Some node_ver, Some npm_ver) \<Rightarrow>
             if node_ver \<noteq> [] \<and> npm_ver \<noteq> [] then node_ver @ ''_'' @ npm_ver
             else ''unknown''
         | _ \<Rightarrow> ''unknown'')
      else if manager = ''composer'' then
        (case php_version dependency_set of
           Some php_ver \<Rightarrow> if php_ver \<noteq> [] then php_ver else ''unknown''
         | None \<Rightarrow> ''unknown'')
      else ''unknown'')"

definition store_dependency_set ::
    "('s, 'i) HandleCacheRequest \<Rightarrow> DependencySet \<Rightarrow> string \<Rightarrow> 's \<Rightarrow> 's" where
  "store_dependency_set self dependency_set bundle_hash s =
     (case store_files self (ds_files dependency_set) Map.empty s of
        (index_data, s) \<Rightarrow>
          (let manager = ds_manager dependency_set;
               manager_version = manager_version_of dependency_set;
               s = save_index (cache_repository self) bundle_hash manager manager_version
                     index_data s;
               s = generate_bundle_zip (cache_repository self) bundle_hash s
           in s))"

definition install_failed_message :: "string option \<Rightarrow> string" where
  "install_failed_message msg =
     ''Installation failed: '' @ (case msg of None \<Rightarrow> ''None'' | Some m \<Rightarrow> m)"

text \<open>
  The condition of the cache probe, \<^verbatim>\<open>index_data and self.cache_repository.has_bundle(...)\<close>:
  \<^verbatim>\<open>and\<close> calls \<^verbatim>\<open>has_bundle\<close> only when the index it was given is truthy.
\<close>

definition cache_probe :: "('s, 'i) HandleCacheRequest \<Rightarrow> string \<Rightarrow> 's \<Rightarrow> bool \<times> 's" where
  "cache_probe self request_hash s =
     (case get_index (cache_repository self) request_hash s of
        (index_data, s) \<Rightarrow>
          (case index_data of
             None \<Rightarrow> (False, s)
           | Some idx \<Rightarrow>
               if index_truthy (cache_repository self) idx
               then has_bundle (cache_repository self) request_hash s
               else (False, s)))"

definition handle ::
    "('s, 'i) HandleCacheRequest \<Rightarrow> CacheRequest \<Rightarrow> 's \<Rightarrow> (error + CacheResponse) \<times> 's" where
  "handle self request s =
     (let request_hash = calculate_bundle_hash self request in
      case cache_probe self request_hash s of
        (hit, s) \<Rightarrow>
          if hit then
            (Inr \<lparr>resp_bundle_hash = request_hash,
                  resp_download_url = ''/download/'' @ request_hash @ ''.zip'',
                  is_cache_hit = True\<rparr>, s)
          else
            (case determine_installation_method self (req_manager request)
                    (req_versions request) s of
               (Inl e, s) \<Rightarrow> (Inl e, s)
             | (Inr installation_method, s) \<Rightarrow>
                 (case (if installation_method = ''docker''
                        then install_with_docker self request s
                        else install_natively self request s) of
                    (installation_result, s) \<Rightarrow>
                      if \<not> success installation_result then
                        (Inl (RuntimeError
                           (install_failed_message (error_message installation_result))), s)
                      else
                        (let dep_files =
                               map (\<lambda>file. DependencyFile (fd_relative_path file)
                                             (fd_content file))
                                 (result_files installation_result);
                             dependency_set =
                               DependencySet_init (req_manager request) dep_files
                                 (get_version_kwargs (req_manager request)
                                    (req_versions request));
                             s = store_dependency_set self dependency_set request_hash s
                         in (Inr \<lparr>resp_bundle_hash = request_hash,
                                   resp_download_url = ''/download/'' @ request_hash @ ''.zip'',
                                   is_cache_hit = False\<rparr>, s)))))"

section \<open>The endpoint\<close>

text \<open>
  \<^verbatim>\<open>cache_dependencies\<close> of \<^verbatim>\<open>interfaces/api.py\<close>.  \<^verbatim>\<open>json.loads\<close> is a library call: a
  form field that holds JSON arrives as the outcome of decoding it, the error with its
  text.  The \<^verbatim>\<open>versions\<close> field, when it decodes, is the \<^verbatim>\<open>Dict[str, str]\<close> that
  \<^verbatim>\<open>CacheRequest\<close> declares.  A \<^verbatim>\<open>custom_args\<close> field that is absent or the empty string
  is \<open>None\<close>.  The API-key dependency runs before the endpoint and is not part of it.
\<close>

datatype 'a decoded = JSONDecodeError string | Decoded 'a

datatype custom_args_value = NotAList | ArgList "string list"

record UploadFile =
  filename :: "string option"
  file_content :: bytes

record Config =
  cfg_supported_versions :: "string \<rightharpoonup> (string \<times> string) list list"
  cfg_use_docker_on_version_mismatch :: bool
  base_url :: string

record CacheResponseDTO =
  dto_download_url :: string
  cache_hit :: bool

datatype http_response = HTTPException nat string | Response CacheResponseDTO

text \<open>
  The module's globals, and what the endpoint imports from modules that are not among
  the sources: the class \<^verbatim>\<open>InstallerFactory\<close> and the two hash functions.
\<close>

record ('s, 'i) api_globals =
  config :: "Config option"
  g_cache_repository :: "('s, 'i) CacheRepository option"
  g_docker_utils :: "'s DockerUtils option"
  InstallerFactory :: "string \<Rightarrow> versions \<Rightarrow> string list option \<Rightarrow> 's Installer"
  g_dep_set_hash :: "DependencySet \<Rightarrow> string"
  g_blob_hash :: "bytes \<Rightarrow> string"

definition manifest_names :: "string \<rightharpoonup> string" where
  "manifest_names =
     [''npm'' \<mapsto> ''package.json'', ''yarn'' \<mapsto> ''package.json'',
      ''composer'' \<mapsto> ''composer.json'']"

definition lockfile_names :: "string \<rightharpoonup> string" where
  "lockfile_names =
     [''npm'' \<mapsto> ''package-lock.json'', ''yarn'' \<mapsto> ''yarn.lock'',
      ''composer'' \<mapsto> ''composer.lock'']"

text \<open>\<^verbatim>\<open>str.lower\<close> on the ASCII letters.\<close>

definition lower_char :: "char \<Rightarrow> char" where
  "lower_char c =
     (let n = (of_char c :: nat) in if 65 \<le> n \<and> n \<le> 90 then char_of (n + 32) else c)"

definition lower :: "string \<Rightarrow> string" where
  "lower s = map lower_char s"

text \<open>Python's \<^verbatim>\<open>sub in s\<close> on strings.\<close>

fun contains :: "string \<Rightarrow> string \<Rightarrow> bool" where
  "contains sub [] = (sub = [])"
| "contains sub (c # s) = (take (length sub) (c # s) = sub \<or> contains sub s)"

text \<open>
  The loop over the uploaded files.  \<open>Inl\<close> is the text of the exception it raises: a
  part without a file name has no \<^verbatim>\<open>lower\<close>.
\<close>

fun read_files ::
    "string option \<Rightarrow> string option \<Rightarrow> UploadFile list \<Rightarrow> bytes option \<Rightarrow> bytes option
      \<Rightarrow> string + (bytes option \<times> bytes option)" where
  "read_files manifest_name' lockfile_name' [] manifest_content' lockfile_content' =
     Inr (manifest_content', lockfile_content')"
| "read_files manifest_name' lockfile_name' (uploaded_file # rest) manifest_content'
       lockfile_content' =
     (case filename uploaded_file of
        None \<Rightarrow>
          Inl ([CHR 0x27] @ ''NoneType'' @ [CHR 0x27] @ '' object has no attribute '' @
               [CHR 0x27] @ ''lower'' @ [CHR 0x27])
      | Some name \<Rightarrow>
          (let filename' = lower name;
               content' = file_content uploaded_file
           in if Some filename' = manifest_name'
              then read_files manifest_name' lockfile_name' rest (Some content')
                     lockfile_content'
              else if Some filename' = lockfile_name'
              then read_files manifest_name' lockfile_name' rest manifest_content'
                     (Some content')
              else if (case manifest_name' of
                         None \<Rightarrow> False
                       | Some mn \<Rightarrow> mn \<noteq> [] \<and> contains mn filename')
              then read_files manifest_name' lockfile_name' rest (Some content')
                     lockfile_content'
              else if (case lockfile_name' of
                         None \<Rightarrow> False
                       | Some ln \<Rightarrow> ln \<noteq> [] \<and> contains ln filename')
              then read_files manifest_name' lockfile_name' rest manifest_content'
                     (Some content')
              else read_files manifest_name' lockfile_name' rest manifest_content'
                     lockfile_content'))"

definition missing_manifest_message :: "string option \<Rightarrow> string" where
  "missing_manifest_message manifest_name' =
     ''Missing required manifest file: '' @
       (case manifest_name' of None \<Rightarrow> ''None'' | Some n \<Rightarrow> n)"

text \<open>
  Lines 155 to 185: the files are read and the manifest is required; a lockfile that is
  missing or empty becomes the empty byte string.  \<open>Inl\<close> is the text of the exception.
\<close>

definition identify_files ::
    "string option \<Rightarrow> string option \<Rightarrow> UploadFile list \<Rightarrow> string + (bytes \<times> bytes)" where
  "identify_files manifest_name' lockfile_name' file =
     (case read_files manifest_name' lockfile_name' file None None of
        Inl msg \<Rightarrow> Inl msg
      | Inr (manifest_content', lockfile_content') \<Rightarrow>
          (case manifest_content' of
             None \<Rightarrow> Inl (missing_manifest_message manifest_name')
           | Some mc \<Rightarrow>
               if mc = [] then Inl (missing_manifest_message manifest_name')
               else Inr (mc, (case lockfile_content' of
                                None \<Rightarrow> []
                              | Some lc \<Rightarrow> if lc = [] then [] else lc))))"

text \<open>
  Lines 121 to 129: \<^verbatim>\<open>custom_args\<close> is decoded when it is given and must be a list.
\<close>

definition parse_custom_args :: "custom_args_value decoded option \<Rightarrow> string + string list option" where
  "parse_custom_args custom_args =
     (case custom_args of
        None \<Rightarrow> Inr None
      | Some (JSONDecodeError msg) \<Rightarrow> Inl msg
      | Some (Decoded NotAList) \<Rightarrow> Inl ''custom_args must be a JSON array''
      | Some (Decoded (ArgList args)) \<Rightarrow> Inr (Some args))"

definition cache_dependencies ::
    "('s, 'i) api_globals \<Rightarrow> string \<Rightarrow> string \<Rightarrow> versions decoded \<Rightarrow> UploadFile list
      \<Rightarrow> custom_args_value decoded option \<Rightarrow> 's \<Rightarrow> http_response \<times> 's" where
  "cache_dependencies g manager hash versions file custom_args s =
     (case (config g, g_cache_repository g) of
        (Some cfg, Some repository) \<Rightarrow>
          (case versions of
             JSONDecodeError msg \<Rightarrow> (HTTPException 400 ''Invalid versions JSON'', s)
           | Decoded versions_dict \<Rightarrow>
               (case parse_custom_args custom_args of
                  Inl msg \<Rightarrow> (HTTPException 400 (''Invalid custom_args: '' @ msg), s)
                | Inr custom_args_list \<Rightarrow>
                    if manager \<notin> set [''npm'', ''composer'', ''yarn'']
                    then (HTTPException 400 (''Unsupported manager: '' @ manager), s)
                    else if file = [] \<or> length file = 0
                    then (HTTPException 400 ''No files provided'', s)
                    else
                      (case identify_files (manifest_names manager) (lockfile_names manager)
                              file of
                         Inl msg \<Rightarrow> (HTTPException 400 (''Error reading files: '' @ msg), s)
                       | Inr (manifest_content', lockfile_content') \<Rightarrow>
                           (let handler =
                                  \<lparr>cache_repository = repository,
                                   installer_factory = InstallerFactory g,
                                   docker_utils = g_docker_utils g,
                                   supported_versions = cfg_supported_versions cfg,
                                   use_docker_on_version_mismatch =
                                     cfg_use_docker_on_version_mismatch cfg,
                                   dep_set_hash = g_dep_set_hash g,
                                   blob_hash = g_blob_hash g\<rparr>;
                                cache_request =
                                  \<lparr>req_manager = manager, req_versions = versions_dict,
                                   lockfile_content = lockfile_content',
                                   manifest_content = manifest_content',
                                   req_custom_args = custom_args_list\<rparr>
                            in case handle handler cache_request s of
                                 (Inr response, s) \<Rightarrow>
                                   (Response
                                      \<lparr>dto_download_url =
                                         base_url cfg @ resp_download_url response,
                                       cache_hit = is_cache_hit response\<rparr>, s)
                               | (Inl (ValueError msg), s) \<Rightarrow> (HTTPException 400 msg, s)
                               | (Inl (RuntimeError msg), s) \<Rightarrow>
                                   (HTTPException 500
                                      (''Internal server error: '' @ msg), s)))))
      | _ \<Rightarrow> (HTTPException 500 ''Server not properly configured'', s))"

text \<open>
  The handler the endpoint constructs (\<^verbatim>\<open>HandleCacheRequest(...)\<close>, lines 188 to 194) from
  the module's globals.
\<close>

definition api_handler ::
    "('s, 'i) api_globals \<Rightarrow> Config \<Rightarrow> ('s, 'i) CacheRepository \<Rightarrow> ('s, 'i) HandleCacheRequest" where
  "api_handler g cfg repository =
     \<lparr>cache_repository = repository,
      installer_factory = InstallerFactory g,
      docker_utils = g_docker_utils g,
      supported_versions = cfg_supported_versions cfg,
      use_docker_on_version_mismatch = cfg_use_docker_on_version_mismatch cfg,
      dep_set_hash = g_dep_set_hash g,
      blob_hash = g_blob_hash g\<rparr>"

section \<open>Isolation fallback: the specification's wording\<close>

text \<open>
  Isolation-on-mismatch is enabled and an isolation capability is available (section 4.7),
  in the world \<open>s\<close>.
\<close>

definition isolation_available :: "('s, 'i) HandleCacheRequest \<Rightarrow> 's \<Rightarrow> bool" where
  "isolation_available self s =
     (use_docker_on_version_mismatch self \<and>
      (case docker_utils self of None \<Rightarrow> False | Some du \<Rightarrow> fst (is_available du s)))"

section \<open>Recording the calls\<close>

text \<open>
  The calls a request makes on its collaborators, in program order.  \<open>recording\<close> turns
  a handler whose collaborators answer without a world (the world is \<open>unit\<close>) into one
  over the list of calls made so far: each collaborator answers as before and appends
  its call.
\<close>

datatype event =
    GetIndex string
  | HasBundle string
  | IsAvailable
  | Install directory
  | InstallWithDocker directory string versions "string list option"
  | StoreBlob string bytes
  | SaveIndex string string string "string \<rightharpoonup> string"
  | GenerateBundleZip string

definition recording_repository ::
    "(unit, 'i) CacheRepository \<Rightarrow> (event list, 'i) CacheRepository" where
  "recording_repository repo =
     \<lparr>get_index = (\<lambda>h log. (fst (get_index repo h ()), log @ [GetIndex h])),
      index_truthy = index_truthy repo,
      has_bundle = (\<lambda>h log. (fst (has_bundle repo h ()), log @ [HasBundle h])),
      store_blob = (\<lambda>h c log. log @ [StoreBlob h c]),
      save_index = (\<lambda>h m v i log. log @ [SaveIndex h m v i]),
      generate_bundle_zip = (\<lambda>h log. log @ [GenerateBundleZip h])\<rparr>"

definition recording_installer :: "unit Installer \<Rightarrow> event list Installer" where
  "recording_installer i =
     \<lparr>manifest_name = manifest_name i, lockfile_name = lockfile_name i,
      install = (\<lambda>d log. (fst (install i d ()), log @ [Install d]))\<rparr>"

definition recording_docker :: "unit DockerUtils \<Rightarrow> event list DockerUtils" where
  "recording_docker du =
     \<lparr>is_available = (\<lambda>log. (fst (is_available du ()), log @ [IsAvailable])),
      du_install_with_docker =
        (\<lambda>d m v c log. (fst (du_install_with_docker du d m v c ()),
                          log @ [InstallWithDocker d m v c]))\<rparr>"

definition recording ::
    "(unit, 'i) HandleCacheRequest \<Rightarrow> (event list, 'i) HandleCacheRequest" where
  "recording self =
     \<lparr>cache_repository = recording_repository (cache_repository self),
      installer_factory = (\<lambda>m v c. recording_installer (installer_factory self m v c)),
      docker_utils = map_option recording_docker (docker_utils self),
      supported_versions = supported_versions self,
      use_docker_on_version_mismatch = use_docker_on_version_mismatch self,
      dep_set_hash = dep_set_hash self,
      blob_hash = blob_hash self\<rparr>"

text \<open>The calls that install or store: what a request that fails fast must not make.\<close>

fun installs_or_stores :: "event \<Rightarrow> bool" where
  "installs_or_stores (GetIndex h) = False"
| "installs_or_stores (HasBundle h) = False"
| "installs_or_stores IsAvailable = False"
| "installs_or_stores e = True"

text \<open>The calls that run an installer, natively or isolated.\<close>

fun is_install :: "event \<Rightarrow> bool" where
  "is_install (Install d) = True"
| "is_install (InstallWithDocker d m v c) = True"
| "is_install e = False"

text \<open>The bundle id a repository call is made with, if it takes one.\<close>

fun event_bundle :: "event \<Rightarrow> string option" where
  "event_bundle (GetIndex h) = Some h"
| "event_bundle (HasBundle h) = Some h"
| "event_bundle (SaveIndex h m v i) = Some h"
| "event_bundle (GenerateBundleZip h) = Some h"
| "event_bundle e = None"

text \<open>
  The dictionary \<^verbatim>\<open>index_data\<close> that the loop of \<^verbatim>\<open>_store_dependency_set\<close> has built
  when it ends: each path with the hash of its content, a later file replacing an earlier
  one of the same path.
\<close>

definition index_of :: "(bytes \<Rightarrow> string) \<Rightarrow> DependencyFile list \<Rightarrow> (string \<rightharpoonup> string)" where
  "index_of H fs = fold (\<lambda>f m. m(relative_path f \<mapsto> H (content f))) fs Map.empty"

section \<open>The calls of one request\<close>

text \<open>
  The parts of one run of \<^verbatim>\<open>handle\<close> on a recording handler, each read off the code: the
  lemmas of the section on the recorded run show that \<open>cache_probe\<close>, \<open>install_natively\<close>,
  \<open>install_with_docker\<close>, \<open>store_dependency_set\<close> and \<open>handle\<close> of a recording handler
  are made of them.

  \<open>probe_hit\<close> is the condition of line 38, \<^verbatim>\<open>index_data and has_bundle(request_hash)\<close>,
  with the answers of the repository; \<open>probe_calls\<close> are the calls that evaluating it
  makes: \<^verbatim>\<open>has_bundle\<close> is called only when the index is truthy.
\<close>

definition probe_hit :: "(unit, 'i) HandleCacheRequest \<Rightarrow> string \<Rightarrow> bool" where
  "probe_hit self h =
     (case fst (get_index (cache_repository self) h ()) of
        None \<Rightarrow> False
      | Some idx \<Rightarrow> index_truthy (cache_repository self) idx \<and>
                    fst (has_bundle (cache_repository self) h ()))"

definition probe_calls :: "(unit, 'i) HandleCacheRequest \<Rightarrow> string \<Rightarrow> event list" where
  "probe_calls self h =
     (case fst (get_index (cache_repository self) h ()) of
        None \<Rightarrow> [GetIndex h]
      | Some idx \<Rightarrow> if index_truthy (cache_repository self) idx
                    then [GetIndex h, HasBundle h] else [GetIndex h])"

text \<open>
  The scratch directory when the installer is called (lines 214 to 219 and 246 to 251):
  the manifest under the installer's manifest name and, when \<^verbatim>\<open>lockfile_content\<close> is not
  empty, the lockfile under the installer's lockfile name, written after the manifest.
\<close>

definition staged :: "(unit, 'i) HandleCacheRequest \<Rightarrow> CacheRequest \<Rightarrow> directory" where
  "staged self request =
     (let installer = installer_factory self (req_manager request) (req_versions request)
                        (req_custom_args request);
          temp_dir = [manifest_name installer \<mapsto> manifest_content request]
      in if lockfile_content request \<noteq> []
         then temp_dir(lockfile_name installer \<mapsto> lockfile_content request) else temp_dir)"

text \<open>
  The dependency set \<^verbatim>\<open>handle\<close> builds from the files of an installation result (lines
  61 to 70).
\<close>

definition installed_set :: "CacheRequest \<Rightarrow> InstallationResult \<Rightarrow> DependencySet" where
  "installed_set request installation_result =
     DependencySet_init (req_manager request)
       (map (\<lambda>file. DependencyFile (fd_relative_path file) (fd_content file))
          (result_files installation_result))
       (get_version_kwargs (req_manager request) (req_versions request))"

text \<open>
  The calls of \<^verbatim>\<open>_store_dependency_set\<close> with the bundle id \<open>h\<close> (lines 285 to 312).
\<close>

definition store_calls :: "(unit, 'i) HandleCacheRequest \<Rightarrow> DependencySet \<Rightarrow> string \<Rightarrow> event list" where
  "store_calls self dependency_set h =
     map (\<lambda>f. StoreBlob (blob_hash self (content f)) (content f)) (ds_files dependency_set) @
       [SaveIndex h (ds_manager dependency_set) (manager_version_of dependency_set)
          (index_of (blob_hash self) (ds_files dependency_set)),
        GenerateBundleZip h]"

text \<open>The two responses \<^verbatim>\<open>handle\<close> returns (lines 39 to 43 and 75 to 79).\<close>

definition miss_response :: "string \<Rightarrow> CacheResponse" where
  "miss_response h =
     \<lparr>resp_bundle_hash = h, resp_download_url = ''/download/'' @ h @ ''.zip'',
      is_cache_hit = False\<rparr>"

definition hit_response :: "string \<Rightarrow> CacheResponse" where
  "hit_response h =
     \<lparr>resp_bundle_hash = h, resp_download_url = ''/download/'' @ h @ ''.zip'',
      is_cache_hit = True\<rparr>"

text \<open>
  Lines 57 to 79 of \<^verbatim>\<open>handle\<close>, after the installer has returned \<open>res\<close> and the calls
  \<open>log\<close> have been made: a failed installation raises, a successful one is stored under
  the bundle id of the request.
\<close>

definition after_install ::
    "(unit, 'i) HandleCacheRequest \<Rightarrow> CacheRequest \<Rightarrow> InstallationResult \<Rightarrow> event list
      \<Rightarrow> (error + CacheResponse) \<times> event list" where
  "after_install self request res log =
     (if \<not> success res
      then (Inl (RuntimeError (install_failed_message (error_message res))), log)
      else (Inr (miss_response (calculate_bundle_hash self request)),
            log @ store_calls self (installed_set request res)
                    (calculate_bundle_hash self request)))"

section \<open>Example configurations\<close>

text \<open>
  A repository that holds the indexes and archives named, an installer with the file
  names of \<open>manifest_names\<close> and \<open>lockfile_names\<close> that installs one file, and the
  support list of scenario (c): \<^verbatim>\<open>[{runtime: 18.0.0, package_manager: 9.0.0}]\<close> for
  \<^verbatim>\<open>npm\<close>.  The example hash of a dependency set is the text of its manager tag, its
  version fields and its files.
\<close>

definition example_repository :: "string list \<Rightarrow> string list \<Rightarrow> (unit, unit) CacheRepository" where
  "example_repository indexed archived =
     \<lparr>get_index = (\<lambda>h s. (if h \<in> set indexed then Some () else None, s)),
      index_truthy = (\<lambda>i. True),
      has_bundle = (\<lambda>h s. (h \<in> set indexed \<and> h \<in> set archived, s)),
      store_blob = (\<lambda>h c s. s),
      save_index = (\<lambda>h m v i s. s),
      generate_bundle_zip = (\<lambda>h s. s)\<rparr>"

definition example_installer :: "string \<Rightarrow> versions \<Rightarrow> string list option \<Rightarrow> unit Installer" where
  "example_installer manager versions custom_args =
     \<lparr>manifest_name = (case manifest_names manager of Some n \<Rightarrow> n | None \<Rightarrow> ''manifest''),
      lockfile_name = (case lockfile_names manager of Some n \<Rightarrow> n | None \<Rightarrow> ''lockfile''),
      install = (\<lambda>d s.
        (\<lparr>success = True, result_files = [FileData ''node_modules/x/index.js'' ''ok''],
          error_message = None\<rparr>, s))\<rparr>"

definition example_docker :: "bool \<Rightarrow> unit DockerUtils" where
  "example_docker available =
     \<lparr>is_available = (\<lambda>s. (available, s)),
      du_install_with_docker = (\<lambda>d m v c s.
        (\<lparr>success = True, result_files = [FileData ''node_modules/x/index.js'' ''ok''],
          error_message = None\<rparr>, s))\<rparr>"

definition opt_text :: "string option \<Rightarrow> string" where
  "opt_text v = (case v of None \<Rightarrow> ''-'' | Some t \<Rightarrow> t)"

definition example_hash :: "DependencySet \<Rightarrow> string" where
  "example_hash d =
     ds_manager d @ ''|'' @ opt_text (node_version d) @ ''|'' @ opt_text (npm_version d) @ ''|'' @
       opt_text (php_version d) @ ''|'' @
       concat (map (\<lambda>f. relative_path f @ ''='' @ content f @ '';'') (ds_files d))"

definition example_support :: "string \<rightharpoonup> (string \<times> string) list list" where
  "example_support =
     [''npm'' \<mapsto> [[(''runtime'', ''18.0.0''), (''package_manager'', ''9.0.0'')]]]"

definition example_handler ::
    "string list \<Rightarrow> string list \<Rightarrow> unit DockerUtils option \<Rightarrow> bool
      \<Rightarrow> (unit, unit) HandleCacheRequest" where
  "example_handler indexed archived docker use_docker =
     \<lparr>cache_repository = example_repository indexed archived,
      installer_factory = example_installer,
      docker_utils = docker,
      supported_versions = example_support,
      use_docker_on_version_mismatch = use_docker,
      dep_set_hash = example_hash,
      blob_hash = (\<lambda>b. ''h:'' @ b)\<rparr>"

definition example_globals :: "(unit, unit) api_globals" where
  "example_globals =
     \<lparr>config = Some \<lparr>cfg_supported_versions = example_support,
                     cfg_use_docker_on_version_mismatch = False,
                     base_url = ''http://localhost:8000''\<rparr>,
      g_cache_repository = Some (example_repository [] []),
      g_docker_utils = None,
      InstallerFactory = example_installer,
      g_dep_set_hash = example_hash,
      g_blob_hash = (\<lambda>b. ''h:'' @ b)\<rparr>"

definition versions_node_npm :: versions where
  "versions_node_npm = [''node'' \<mapsto> ''20.0.0'', ''npm'' \<mapsto> ''10.0.0'']"

definition versions_runtime_pm :: versions where
  "versions_runtime_pm = [''runtime'' \<mapsto> ''20.0.0'', ''package_manager'' \<mapsto> ''10.0.0'']"

definition versions_node18 :: versions where
  "versions_node18 = [''node'' \<mapsto> ''18.0.0'', ''npm'' \<mapsto> ''9.0.0'']"

definition example_request :: "versions \<Rightarrow> bytes \<Rightarrow> CacheRequest" where
  "example_request versions lockfile =
     \<lparr>req_manager = ''npm'', req_versions = versions, lockfile_content = lockfile,
      manifest_content = ''{}'', req_custom_args = None\<rparr>"

section \<open>Version policy: the specification's wording\<close>

text \<open>
  The normalisation of section 4.6: for \<^verbatim>\<open>npm\<close> and \<^verbatim>\<open>yarn\<close> the role \<^verbatim>\<open>runtime\<close> is
  read from \<^verbatim>\<open>node\<close> or \<^verbatim>\<open>runtime\<close> and \<^verbatim>\<open>package_manager\<close> from \<^verbatim>\<open>npm\<close>, \<^verbatim>\<open>yarn\<close> or
  \<^verbatim>\<open>package_manager\<close>; for \<^verbatim>\<open>composer\<close> the role \<^verbatim>\<open>runtime\<close> is read from \<^verbatim>\<open>php\<close> or
  \<^verbatim>\<open>runtime\<close>; other managers keep their tuple.  Among several aliases present the
  first in the order listed gives the value.
\<close>

fun first_present :: "versions \<Rightarrow> string list \<Rightarrow> string option" where
  "first_present versions [] = None"
| "first_present versions (role # roles) =
     (case versions role of Some v \<Rightarrow> Some v | None \<Rightarrow> first_present versions roles)"

definition normalize_roles :: "string \<Rightarrow> versions \<Rightarrow> versions" where
  "normalize_roles manager versions =
     (if manager = ''npm'' \<or> manager = ''yarn'' then
        (\<lambda>role. if role = ''runtime'' then first_present versions [''node'', ''runtime'']
                 else if role = ''package_manager''
                 then first_present versions [''npm'', ''yarn'', ''package_manager'']
                 else None)
      else if manager = ''composer'' then
        (\<lambda>role. if role = ''runtime'' then first_present versions [''php'', ''runtime'']
                 else None)
      else versions)"

text \<open>
  An entry matches when every key it specifies is present in the normalised tuple with
  the same value.
\<close>

definition entry_matches :: "(string \<times> string) list \<Rightarrow> versions \<Rightarrow> bool" where
  "entry_matches supported normalized =
     (\<forall>key \<in> dom (map_of supported). normalized key = map_of supported key)"

definition policy_supported ::
    "(string \<rightharpoonup> (string \<times> string) list list) \<Rightarrow> string \<Rightarrow> versions \<Rightarrow> bool" where
  "policy_supported support manager versions =
     (case support manager of
        None \<Rightarrow> True
      | Some supported_list \<Rightarrow>
          supported_list = [] \<or>
          (\<exists>supported \<in> set supported_list.
             entry_matches supported (normalize_roles manager versions)))"

section \<open>Version policy\<close>

lemma keys_match_iff:
  "keys_match supported normalized keys =
     (\<forall>key \<in> set keys. normalized key \<noteq> None \<and> map_of supported key = normalized key)"
  by (induction keys) auto

lemma keys_match_entry:
  "keys_match supported normalized (map fst supported) = entry_matches supported normalized"
proof -
  have "dom (map_of supported) = set (map fst supported)"
    by (simp add: dom_map_of_conv_image_fst)
  moreover have "\<And>key. key \<in> dom (map_of supported) \<Longrightarrow> map_of supported key \<noteq> None"
    by auto
  ultimately show ?thesis
    unfolding keys_match_iff entry_matches_def by metis
qed

lemma supported_loop_iff:
  "supported_loop supported_list normalized =
     (\<exists>supported \<in> set supported_list. entry_matches supported normalized)"
  by (induction supported_list) (auto simp: keys_match_entry)

text \<open>The dictionary \<^verbatim>\<open>normalized_versions\<close> the code builds is the normalised tuple.\<close>

lemma code_normalization:
  "(if manager = ''npm'' \<or> manager = ''yarn'' then
      (let nv =
             (if versions ''node'' \<noteq> None
              then Map.empty(''runtime'' := versions ''node'')
              else if versions ''runtime'' \<noteq> None
              then Map.empty(''runtime'' := versions ''runtime'')
              else Map.empty)
       in if versions ''npm'' \<noteq> None
          then nv(''package_manager'' := versions ''npm'')
          else if versions ''yarn'' \<noteq> None
          then nv(''package_manager'' := versions ''yarn'')
          else if versions ''package_manager'' \<noteq> None
          then nv(''package_manager'' := versions ''package_manager'')
          else nv)
    else if manager = ''composer'' then
      (if versions ''php'' \<noteq> None
       then Map.empty(''runtime'' := versions ''php'')
       else if versions ''runtime'' \<noteq> None
       then Map.empty(''runtime'' := versions ''runtime'')
       else Map.empty)
    else versions) = normalize_roles manager versions"
  by (rule ext) (auto simp: normalize_roles_def Let_def split: option.splits)

text \<open>
  C7: the version-support check answers supported when the manager has no support list
  or an empty one; otherwise it normalises the role names of the request and answers
  supported exactly when some support entry has every one of its keys in the normalised
  tuple with an equal value.  \<open>policy_supported\<close> is that wording; where two aliases
  of one role are both present, the code and \<open>normalize_roles\<close> take the first listed.
\<close>

theorem is_version_supported_policy:
  "is_version_supported self manager versions =
     policy_supported (supported_versions self) manager versions"
proof (cases "supported_versions self manager")
  case None
  then show ?thesis by (simp add: is_version_supported_def policy_supported_def)
next
  case (Some supported_list)
  show ?thesis
  proof (cases "supported_list = []")
    case True
    with Some show ?thesis by (simp add: is_version_supported_def policy_supported_def)
  next
    case False
    with Some show ?thesis
      by (simp add: is_version_supported_def policy_supported_def Let_def code_normalization
            supported_loop_iff del: fun_upd_apply)
  qed
qed

theorem is_version_supported_policy_witness:
  "is_version_supported (example_handler [] [] None False) ''npm''
     [''node'' \<mapsto> ''18.0.0'', ''yarn'' \<mapsto> ''9.0.0''] \<and>
   policy_supported example_support ''npm'' [''node'' \<mapsto> ''18.0.0'', ''yarn'' \<mapsto> ''9.0.0''] \<and>
   \<not> policy_supported example_support ''npm'' versions_node_npm"
  using is_version_supported_policy [of "example_handler [] [] None False" "''npm''"
          "[''node'' \<mapsto> ''18.0.0'', ''yarn'' \<mapsto> ''9.0.0'']"]
    is_version_supported_policy [of "example_handler [] [] None False" "''npm''" versions_node_npm]
  by (simp add: is_version_supported_def example_handler_def example_support_def
        versions_node_npm_def)

section \<open>Fingerprint and role aliases\<close>

lemma alias_kwargs:
  "manager = ''npm'' \<or> manager = ''yarn'' \<Longrightarrow>
   get_version_kwargs manager [''node'' \<mapsto> rv, ''npm'' \<mapsto> pv] =
   get_version_kwargs manager [''runtime'' \<mapsto> rv, ''package_manager'' \<mapsto> pv]"
  by (auto simp: get_version_kwargs_def)

text \<open>
  C1 (as amended): for \<^verbatim>\<open>npm\<close> and \<^verbatim>\<open>yarn\<close>, two requests that differ only in carrying
  \<^verbatim>\<open>{node: rv, npm: pv}\<close> or \<^verbatim>\<open>{runtime: rv, package_manager: pv}\<close> get the same bundle
  id, provided the installers that the factory creates for the two requests have the
  same manifest name and the same lockfile name.  \<^verbatim>\<open>_get_version_kwargs\<close> maps both
  spellings to \<^verbatim>\<open>node_version\<close> and \<^verbatim>\<open>npm_version\<close> before the dependency set is built,
  so the version fields that are fingerprinted are equal.  The factory is called with
  the raw \<^verbatim>\<open>request.versions\<close> (lines 87 to 89) and the names of the installer it returns
  are fingerprinted (lines 93 to 101): the file names are the one way by which the raw
  role names can reach the hash, hence the two hypotheses on them.
\<close>

theorem alias_requests_same_bundle_hash:
  assumes "req_manager ra = ''npm'' \<or> req_manager ra = ''yarn''"
    and "req_versions ra = [''node'' \<mapsto> rv, ''npm'' \<mapsto> pv]"
    and "rb = ra\<lparr>req_versions := [''runtime'' \<mapsto> rv, ''package_manager'' \<mapsto> pv]\<rparr>"
    and "manifest_name (installer_factory self (req_manager ra) (req_versions ra) (req_custom_args ra)) =
         manifest_name (installer_factory self (req_manager rb) (req_versions rb) (req_custom_args rb))"
    and "lockfile_name (installer_factory self (req_manager ra) (req_versions ra) (req_custom_args ra)) =
         lockfile_name (installer_factory self (req_manager rb) (req_versions rb) (req_custom_args rb))"
  shows "calculate_bundle_hash self ra = calculate_bundle_hash self rb"
proof -
  have "get_version_kwargs (req_manager ra) (req_versions ra) =
        get_version_kwargs (req_manager rb) (req_versions rb)"
    using assms(1,2,3) alias_kwargs [of "req_manager ra" rv pv] by simp
  moreover have "req_manager rb = req_manager ra" "lockfile_content rb = lockfile_content ra"
    "manifest_content rb = manifest_content ra"
    using assms(3) by simp_all
  ultimately show ?thesis
    using assms(4,5) by (simp add: calculate_bundle_hash_def Let_def)
qed

theorem alias_requests_same_bundle_hash_witness:
  "calculate_bundle_hash (example_handler [] [] None False) (example_request versions_node_npm '''') =
   calculate_bundle_hash (example_handler [] [] None False) (example_request versions_runtime_pm '''')"
  using alias_requests_same_bundle_hash [of "example_request versions_node_npm ''''"
      "''20.0.0''" "''10.0.0''" "example_request versions_runtime_pm ''''"
      "example_handler [] [] None False"]
  by (simp add: example_request_def versions_node_npm_def versions_runtime_pm_def
        example_handler_def example_installer_def)

text \<open>
  The two requests of scenario (b), for \<^verbatim>\<open>npm\<close>: whatever the hash of a dependency set
  is, their bundle ids are equal.
\<close>

theorem fingerprint_alias_counterexample:
  "\<forall>H. calculate_bundle_hash ((example_handler [] [] None False)\<lparr>dep_set_hash := H\<rparr>)
          (example_request versions_node_npm '''') =
        calculate_bundle_hash ((example_handler [] [] None False)\<lparr>dep_set_hash := H\<rparr>)
          (example_request versions_runtime_pm '''')"
  by (simp add: calculate_bundle_hash_def example_request_def versions_node_npm_def
        versions_runtime_pm_def example_handler_def example_installer_def
        get_version_kwargs_def DependencySet_init_def Let_def)

section \<open>Recorded calls\<close>

lemma recording_simps [simp]:
  "cache_repository (recording self) = recording_repository (cache_repository self)"
  "installer_factory (recording self) m v c = recording_installer (installer_factory self m v c)"
  "docker_utils (recording self) = map_option recording_docker (docker_utils self)"
  "supported_versions (recording self) = supported_versions self"
  "use_docker_on_version_mismatch (recording self) = use_docker_on_version_mismatch self"
  "dep_set_hash (recording self) = dep_set_hash self"
  "blob_hash (recording self) = blob_hash self"
  by (simp_all add: recording_def)

lemma recording_repository_simps [simp]:
  "get_index (recording_repository repo) h log = (fst (get_index repo h ()), log @ [GetIndex h])"
  "index_truthy (recording_repository repo) = index_truthy repo"
  "has_bundle (recording_repository repo) h log = (fst (has_bundle repo h ()), log @ [HasBundle h])"
  "store_blob (recording_repository repo) h c log = log @ [StoreBlob h c]"
  "save_index (recording_repository repo) h m v i log = log @ [SaveIndex h m v i]"
  "generate_bundle_zip (recording_repository repo) h log = log @ [GenerateBundleZip h]"
  by (simp_all add: recording_repository_def)

section \<open>The manager-version descriptor\<close>

text \<open>
  C2: the descriptor of a \<^verbatim>\<open>yarn\<close> bundle.  The dependency set of a \<^verbatim>\<open>yarn\<close> request
  with \<^verbatim>\<open>{node: 20.0.0, yarn: 1.22.0}\<close> holds both versions, and the index is saved with
  the descriptor \<^verbatim>\<open>unknown\<close>: \<^verbatim>\<open>_store_dependency_set\<close> tests \<^verbatim>\<open>manager == "npm"\<close> only.
\<close>

theorem yarn_descriptor_unknown:
  "node_version (DependencySet_init ''yarn'' [DependencyFile ''a.js'' ''ok'']
       (get_version_kwargs ''yarn'' [''node'' \<mapsto> ''20.0.0'', ''yarn'' \<mapsto> ''1.22.0''])) = Some ''20.0.0'' \<and>
   npm_version (DependencySet_init ''yarn'' [DependencyFile ''a.js'' ''ok'']
       (get_version_kwargs ''yarn'' [''node'' \<mapsto> ''20.0.0'', ''yarn'' \<mapsto> ''1.22.0''])) = Some ''1.22.0'' \<and>
   store_dependency_set (recording (example_handler [] [] None False))
     (DependencySet_init ''yarn'' [DependencyFile ''a.js'' ''ok'']
       (get_version_kwargs ''yarn'' [''node'' \<mapsto> ''20.0.0'', ''yarn'' \<mapsto> ''1.22.0''])) ''b1'' [] =
     [StoreBlob ''h:ok'' ''ok'', SaveIndex ''b1'' ''yarn'' ''unknown'' [''a.js'' \<mapsto> ''h:ok''],
      GenerateBundleZip ''b1'']"
  by (simp add: store_dependency_set_def DependencySet_init_def get_version_kwargs_def
        manager_version_of_def example_handler_def Let_def)

section \<open>The supplied hash\<close>

text \<open>
  C10: the \<^verbatim>\<open>hash\<close> form field has no influence.  Two calls of the endpoint that differ
  only in that field give the same response (the download URL, which holds the bundle id,
  and the cache-hit flag) and leave the same world behind.
\<close>

theorem supplied_hash_ignored:
  "cache_dependencies g manager hash1 versions file custom_args s =
   cache_dependencies g manager hash2 versions file custom_args s"
  by (simp add: cache_dependencies_def)

lemma recording_installer_simps [simp]:
  "manifest_name (recording_installer i) = manifest_name i"
  "lockfile_name (recording_installer i) = lockfile_name i"
  "install (recording_installer i) d log = (fst (install i d ()), log @ [Install d])"
  by (simp_all add: recording_installer_def)

lemma recording_docker_simps [simp]:
  "is_available (recording_docker du) log = (fst (is_available du ()), log @ [IsAvailable])"
  "du_install_with_docker (recording_docker du) d m v c log =
     (fst (du_install_with_docker du d m v c ()), log @ [InstallWithDocker d m v c])"
  by (simp_all add: recording_docker_def)

section \<open>Staging the lockfile\<close>

text \<open>
  C6: a request whose \<^verbatim>\<open>lockfile_content\<close> is empty stages the manifest alone (the
  directory handed to the native installer and to the isolated one holds one file) and
  its fingerprint is taken over the manifest alone; a non-empty lockfile is written
  beside the manifest and enters the fingerprint before it.
\<close>

theorem lockfile_staged_iff_nonempty:
  "(let installer = installer_factory self (req_manager request) (req_versions request)
                      (req_custom_args request);
        manifest = DependencyFile (manifest_name installer) (manifest_content request);
        lockfile = DependencyFile (lockfile_name installer) (lockfile_content request);
        kwargs = get_version_kwargs (req_manager request) (req_versions request)
    in (lockfile_content request = [] \<longrightarrow>
          install_natively self request s =
            install installer [manifest_name installer \<mapsto> manifest_content request] s \<and>
          (\<forall>du. docker_utils self = Some du \<longrightarrow>
             install_with_docker self request s =
               du_install_with_docker du [manifest_name installer \<mapsto> manifest_content request]
                 (req_manager request) (req_versions request) (req_custom_args request) s) \<and>
          calculate_bundle_hash self request =
            dep_set_hash self (DependencySet_init (req_manager request) [manifest] kwargs)) \<and>
       (lockfile_content request \<noteq> [] \<longrightarrow>
          install_natively self request s =
            install installer
              [manifest_name installer \<mapsto> manifest_content request,
               lockfile_name installer \<mapsto> lockfile_content request] s \<and>
          (\<forall>du. docker_utils self = Some du \<longrightarrow>
             install_with_docker self request s =
               du_install_with_docker du
                 [manifest_name installer \<mapsto> manifest_content request,
                  lockfile_name installer \<mapsto> lockfile_content request]
                 (req_manager request) (req_versions request) (req_custom_args request) s) \<and>
          calculate_bundle_hash self request =
            dep_set_hash self
              (DependencySet_init (req_manager request) [lockfile, manifest] kwargs)))"
  by (simp add: Let_def install_natively_def install_with_docker_def calculate_bundle_hash_def)

theorem lockfile_staged_iff_nonempty_witness:
  "snd (install_natively (recording (example_handler [] [] (Some (example_docker True)) True))
          (example_request versions_node_npm '''') []) =
     [Install [''package.json'' \<mapsto> ''{}'']] \<and>
   snd (install_with_docker (recording (example_handler [] [] (Some (example_docker True)) True))
          (example_request versions_node_npm '''') []) =
     [InstallWithDocker [''package.json'' \<mapsto> ''{}''] ''npm'' versions_node_npm None] \<and>
   calculate_bundle_hash (recording (example_handler [] [] (Some (example_docker True)) True))
       (example_request versions_node_npm '''') =
     ''npm|20.0.0|10.0.0|-|package.json={};'' \<and>
   snd (install_natively (recording (example_handler [] [] (Some (example_docker True)) True))
          (example_request versions_node_npm ''L'') []) =
     [Install [''package.json'' \<mapsto> ''{}'', ''package-lock.json'' \<mapsto> ''L'']] \<and>
   snd (install_with_docker (recording (example_handler [] [] (Some (example_docker True)) True))
          (example_request versions_node_npm ''L'') []) =
     [InstallWithDocker [''package.json'' \<mapsto> ''{}'', ''package-lock.json'' \<mapsto> ''L''] ''npm''
        versions_node_npm None] \<and>
   calculate_bundle_hash (recording (example_handler [] [] (Some (example_docker True)) True))
       (example_request versions_node_npm ''L'') =
     ''npm|20.0.0|10.0.0|-|package-lock.json=L;package.json={};''"
  using lockfile_staged_iff_nonempty
      [of "recording (example_handler [] [] (Some (example_docker True)) True)"
        "example_request versions_node_npm ''''" "[]"]
    lockfile_staged_iff_nonempty
      [of "recording (example_handler [] [] (Some (example_docker True)) True)"
        "example_request versions_node_npm ''L''" "[]"]
  by (simp add: Let_def example_request_def example_handler_def example_installer_def
        example_docker_def manifest_names_def lockfile_names_def example_hash_def
        opt_text_def DependencySet_init_def get_version_kwargs_def versions_node_npm_def)

section \<open>The order of the storage step\<close>

lemma store_files_fold:
  "store_files self fs index_data s =
     (fold (\<lambda>f m. m(relative_path f \<mapsto> blob_hash self (content f))) fs index_data,
      fold (\<lambda>f. store_blob (cache_repository self) (blob_hash self (content f)) (content f)) fs s)"
  by (induction fs arbitrary: index_data s) (simp_all add: Let_def)

lemma ran_fold_index:
  "ran (fold (\<lambda>f m. m(relative_path f \<mapsto> H (content f))) fs m0) \<subseteq>
     ran m0 \<union> (\<lambda>f. H (content f)) ` set fs"
proof (induction fs arbitrary: m0)
  case Nil
  then show ?case by simp
next
  case (Cons f fs)
  have sub: "ran (m0(relative_path f \<mapsto> H (content f))) \<subseteq> ran m0 \<union> {H (content f)}"
    by (auto simp: ran_def)
  have step: "ran (fold (\<lambda>f m. m(relative_path f \<mapsto> H (content f))) fs
                    (m0(relative_path f \<mapsto> H (content f)))) \<subseteq>
              ran (m0(relative_path f \<mapsto> H (content f))) \<union> (\<lambda>f. H (content f)) ` set fs"
    by (rule Cons.IH)
  have "fold (\<lambda>f m. m(relative_path f \<mapsto> H (content f))) (f # fs) m0 =
        fold (\<lambda>f m. m(relative_path f \<mapsto> H (content f))) fs
          (m0(relative_path f \<mapsto> H (content f)))"
    by simp
  with step sub show ?case
    by (simp del: fun_upd_apply fold_simps) blast
qed

lemma store_blobs_recording:
  "fold (\<lambda>f. store_blob (recording_repository repo) (H (content f)) (content f)) fs log =
     log @ map (\<lambda>f. StoreBlob (H (content f)) (content f)) fs"
  by (induction fs arbitrary: log) simp_all

lemma store_dependency_set_recording:
  "store_dependency_set (recording self) dependency_set bundle_hash log =
     log @ map (\<lambda>f. StoreBlob (blob_hash self (content f)) (content f)) (ds_files dependency_set) @
       [SaveIndex bundle_hash (ds_manager dependency_set) (manager_version_of dependency_set)
          (index_of (blob_hash self) (ds_files dependency_set)),
        GenerateBundleZip bundle_hash]"
  by (simp add: store_dependency_set_def store_files_fold Let_def index_of_def
        store_blobs_recording)

text \<open>
  C9: the calls the storage step makes on the repository are, in this order, one
  \<^verbatim>\<open>store_blob\<close> for every output file, then \<^verbatim>\<open>save_index\<close>, then
  \<^verbatim>\<open>generate_bundle_zip\<close>; and every blob hash the saved index refers to is the hash of a
  file stored before it.
\<close>

theorem store_order:
  "store_dependency_set (recording self) dependency_set bundle_hash log =
     log @ map (\<lambda>f. StoreBlob (blob_hash self (content f)) (content f)) (ds_files dependency_set) @
       [SaveIndex bundle_hash (ds_manager dependency_set) (manager_version_of dependency_set)
          (index_of (blob_hash self) (ds_files dependency_set)),
        GenerateBundleZip bundle_hash] \<and>
   (\<forall>h \<in> ran (index_of (blob_hash self) (ds_files dependency_set)).
      \<exists>f \<in> set (ds_files dependency_set). h = blob_hash self (content f))"
proof -
  have "ran (index_of (blob_hash self) (ds_files dependency_set)) \<subseteq>
          (\<lambda>f. blob_hash self (content f)) ` set (ds_files dependency_set)"
    using ran_fold_index [of "blob_hash self" "ds_files dependency_set" Map.empty]
    by (simp add: index_of_def)
  then show ?thesis
    by (simp only: store_dependency_set_recording) blast
qed

theorem store_order_witness:
  "store_dependency_set (recording (example_handler [] [] None False))
     (DependencySet_init ''npm'' [DependencyFile ''a.js'' ''ok'', DependencyFile ''b.js'' ''no'']
        (get_version_kwargs ''npm'' versions_node_npm)) ''b1'' [] =
     [StoreBlob ''h:ok'' ''ok'', StoreBlob ''h:no'' ''no'',
      SaveIndex ''b1'' ''npm'' ''20.0.0_10.0.0'' [''a.js'' \<mapsto> ''h:ok'', ''b.js'' \<mapsto> ''h:no''],
      GenerateBundleZip ''b1'']"
  using store_order [of "example_handler [] [] None False"
      "DependencySet_init ''npm'' [DependencyFile ''a.js'' ''ok'', DependencyFile ''b.js'' ''no'']
        (get_version_kwargs ''npm'' versions_node_npm)" "''b1''" "[]"]
  by (simp add: DependencySet_init_def get_version_kwargs_def versions_node_npm_def
        manager_version_of_def example_handler_def index_of_def)

section \<open>The recorded run of a request\<close>

text \<open>
  On a recording handler the functions of the orchestrator are made of the parts defined
  in the section on the calls of one request: the probe, the staged directory, the
  installer call and the storage step, each with the calls it appends.
\<close>

lemma calculate_bundle_hash_recording [simp]:
  "calculate_bundle_hash (recording self) request = calculate_bundle_hash self request"
  by (simp add: calculate_bundle_hash_def Let_def)

lemma is_version_supported_recording [simp]:
  "is_version_supported (recording self) manager versions =
     is_version_supported self manager versions"
  by (simp add: is_version_supported_def)

lemma isolation_available_recording [simp]:
  "isolation_available (recording self) log = isolation_available self ()"
  by (cases "docker_utils self") (simp_all add: isolation_available_def)

lemma cache_probe_recording:
  "cache_probe (recording self) h log = (probe_hit self h, log @ probe_calls self h)"
  by (simp add: cache_probe_def probe_hit_def probe_calls_def split: option.splits)

lemma determine_recording:
  "determine_installation_method (recording self) manager versions log =
     (if is_version_supported self manager versions then (Inr ''native'', log)
      else if isolation_available self () then (Inr ''docker'', log @ [IsAvailable])
      else (Inl (ValueError (unsupported_message manager)),
            if use_docker_on_version_mismatch self \<and> docker_utils self \<noteq> None
            then log @ [IsAvailable] else log))"
  by (cases "docker_utils self")
     (simp_all add: determine_installation_method_def isolation_available_def)

lemma install_natively_recording:
  "install_natively (recording self) request log =
     (fst (install (installer_factory self (req_manager request) (req_versions request)
                      (req_custom_args request)) (staged self request) ()),
      log @ [Install (staged self request)])"
  by (simp add: install_natively_def staged_def Let_def)

lemma install_with_docker_recording:
  "docker_utils self = Some du \<Longrightarrow>
   install_with_docker (recording self) request log =
     (fst (du_install_with_docker du (staged self request) (req_manager request)
             (req_versions request) (req_custom_args request) ()),
      log @ [InstallWithDocker (staged self request) (req_manager request)
               (req_versions request) (req_custom_args request)])"
  by (simp add: install_with_docker_def staged_def Let_def)

lemma store_dependency_set_calls:
  "store_dependency_set (recording self) dependency_set h log =
     log @ store_calls self dependency_set h"
  by (simp add: store_dependency_set_recording store_calls_def)

lemma handle_recording_hit:
  "probe_hit self (calculate_bundle_hash self request) \<Longrightarrow>
   handle (recording self) request log =
     (Inr (hit_response (calculate_bundle_hash self request)),
      log @ probe_calls self (calculate_bundle_hash self request))"
  by (simp add: handle_def cache_probe_recording hit_response_def Let_def)

lemma handle_recording_native:
  "\<not> probe_hit self (calculate_bundle_hash self request) \<Longrightarrow>
   is_version_supported self (req_manager request) (req_versions request) \<Longrightarrow>
   handle (recording self) request log =
     after_install self request
       (fst (install (installer_factory self (req_manager request) (req_versions request)
                        (req_custom_args request)) (staged self request) ()))
       (log @ probe_calls self (calculate_bundle_hash self request) @
          [Install (staged self request)])"
  by (simp add: handle_def cache_probe_recording determine_recording
        install_natively_recording after_install_def miss_response_def installed_set_def
        store_dependency_set_calls Let_def)

lemma handle_recording_isolated:
  "\<not> probe_hit self (calculate_bundle_hash self request) \<Longrightarrow>
   \<not> is_version_supported self (req_manager request) (req_versions request) \<Longrightarrow>
   isolation_available self () \<Longrightarrow> docker_utils self = Some du \<Longrightarrow>
   handle (recording self) request log =
     after_install self request
       (fst (du_install_with_docker du (staged self request) (req_manager request)
               (req_versions request) (req_custom_args request) ()))
       (log @ probe_calls self (calculate_bundle_hash self request) @
          [IsAvailable,
           InstallWithDocker (staged self request) (req_manager request)
             (req_versions request) (req_custom_args request)])"
  by (simp add: handle_def cache_probe_recording determine_recording
        install_with_docker_recording after_install_def miss_response_def installed_set_def
        store_dependency_set_calls Let_def)

lemma handle_recording_unsupported:
  "\<not> probe_hit self (calculate_bundle_hash self request) \<Longrightarrow>
   \<not> is_version_supported self (req_manager request) (req_versions request) \<Longrightarrow>
   \<not> isolation_available self () \<Longrightarrow>
   handle (recording self) request log =
     (Inl (ValueError (unsupported_message (req_manager request))),
      log @ probe_calls self (calculate_bundle_hash self request) @
        (if use_docker_on_version_mismatch self \<and> docker_utils self \<noteq> None
         then [IsAvailable] else []))"
  by (auto simp add: handle_def cache_probe_recording determine_recording Let_def)

lemma cache_probe_fst:
  "fst (cache_probe (recording self) h log) = probe_hit self h"
  by (simp add: cache_probe_recording)

lemma probe_calls_no_install [simp]:
  "filter is_install (probe_calls self h) = []"
  "list_ex installs_or_stores (probe_calls self h) = False"
  by (simp_all add: probe_calls_def split: option.splits)

lemma store_calls_no_install [simp]:
  "filter is_install (store_calls self dependency_set h) = []"
  by (simp add: store_calls_def filter_empty_conv)

lemma probe_calls_bundle:
  "e \<in> set (probe_calls self h) \<Longrightarrow> event_bundle e = Some h"
  by (auto simp: probe_calls_def split: option.splits if_splits)

lemma hd_probe_calls [simp]: "hd (probe_calls self h @ rest) = GetIndex h"
  by (simp add: probe_calls_def split: option.splits)

lemma store_calls_bundle:
  "e \<in> set (store_calls self dependency_set h) \<Longrightarrow>
   event_bundle e = None \<or> event_bundle e = Some h"
  by (auto simp: store_calls_def)

lemma after_install_installs:
  "filter is_install (snd (after_install self request res log)) = filter is_install log"
  by (simp add: after_install_def)

lemma handle_native_installs:
  assumes "\<not> probe_hit self (calculate_bundle_hash self request)"
    "is_version_supported self (req_manager request) (req_versions request)"
  shows "filter is_install (snd (handle (recording self) request [])) =
           [Install (staged self request)]"
  apply (simp only: handle_recording_native [OF assms])
  apply (simp only: after_install_installs)
  apply (simp only: append_Nil filter_append probe_calls_no_install)
  apply (simp only: filter.simps is_install.simps if_True append_Nil)
  done

lemma handle_isolated_installs:
  assumes "\<not> probe_hit self (calculate_bundle_hash self request)"
    "\<not> is_version_supported self (req_manager request) (req_versions request)"
    "isolation_available self ()"
  shows "filter is_install (snd (handle (recording self) request [])) =
           [InstallWithDocker (staged self request) (req_manager request)
              (req_versions request) (req_custom_args request)]"
proof (cases "docker_utils self")
  case None
  with assms(3) show ?thesis by (simp add: isolation_available_def)
next
  case (Some du)
  show ?thesis
    apply (simp only: handle_recording_isolated [OF assms Some])
    apply (simp only: after_install_installs)
    apply (simp only: append_Nil filter_append probe_calls_no_install)
    apply (simp only: filter.simps is_install.simps if_True if_False append_Nil)
    done
qed

lemma handle_unsupported_fails:
  assumes "\<not> probe_hit self (calculate_bundle_hash self request)"
    "\<not> is_version_supported self (req_manager request) (req_versions request)"
    "\<not> isolation_available self ()"
  shows "fst (handle (recording self) request []) =
           Inl (ValueError (unsupported_message (req_manager request)))"
    and "\<not> list_ex installs_or_stores (snd (handle (recording self) request []))"
  by (simp_all add: handle_recording_unsupported [OF assms])

lemma determine_method:
  "fst (determine_installation_method (recording self) manager versions log) =
     (if is_version_supported self manager versions then Inr ''native''
      else if isolation_available self () then Inr ''docker''
      else Inl (ValueError (unsupported_message manager)))"
  by (simp add: determine_recording)

lemma after_install_success:
  "success res \<Longrightarrow>
   after_install self request res log =
     (Inr (miss_response (calculate_bundle_hash self request)),
      log @ store_calls self (installed_set request res) (calculate_bundle_hash self request))"
  by (simp add: after_install_def)

lemma after_install_failure:
  "\<not> success res \<Longrightarrow>
   after_install self request res log =
     (Inl (RuntimeError (install_failed_message (error_message res))), log)"
  by (simp add: after_install_def)

lemma after_install_outcome:
  assumes "\<forall>e \<in> set pre. event_bundle e = None"
  shows "(\<exists>e. after_install self request res (log @ probe @ pre) = (Inl e, log @ probe @ pre)) \<or>
         (\<exists>ds. after_install self request res (log @ probe @ pre) =
            (Inr (miss_response (calculate_bundle_hash self request)),
             log @ probe @ pre @ store_calls self ds (calculate_bundle_hash self request)))"
proof (cases "success res")
  case True
  have "after_install self request res (log @ probe @ pre) =
          (Inr (miss_response (calculate_bundle_hash self request)),
           log @ probe @ pre @
             store_calls self (installed_set request res) (calculate_bundle_hash self request))"
    by (simp only: after_install_success [OF True] append_assoc)
  then show ?thesis by (intro disjI2 exI)
next
  case False
  show ?thesis by (intro disjI1 exI) (rule after_install_failure [OF False])
qed

lemma handle_recording_miss:
  assumes miss: "\<not> probe_hit self (calculate_bundle_hash self request)"
  shows "\<exists>pre. (\<forall>e \<in> set pre. event_bundle e = None) \<and>
           ((\<exists>e. handle (recording self) request log =
                   (Inl e, log @ probe_calls self (calculate_bundle_hash self request) @ pre)) \<or>
            (\<exists>ds. handle (recording self) request log =
                   (Inr (miss_response (calculate_bundle_hash self request)),
                    log @ probe_calls self (calculate_bundle_hash self request) @ pre @
                      store_calls self ds (calculate_bundle_hash self request))))"
proof (cases "is_version_supported self (req_manager request) (req_versions request)")
  case True
  have pre: "\<forall>e \<in> set [Install (staged self request)]. event_bundle e = None"
    by simp
  show ?thesis
    apply (rule exI [of _ "[Install (staged self request)]"])
    apply (rule conjI)
     apply (rule pre)
    apply (simp only: handle_recording_native [OF miss True])
    apply (rule after_install_outcome [OF pre])
    done
next
  case False
  show ?thesis
  proof (cases "isolation_available self ()")
    case iso: True
    then obtain du where du: "docker_utils self = Some du"
      by (cases "docker_utils self") (simp_all add: isolation_available_def)
    have pre: "\<forall>e \<in> set [IsAvailable,
                 InstallWithDocker (staged self request) (req_manager request)
                   (req_versions request) (req_custom_args request)]. event_bundle e = None"
      by simp
    show ?thesis
      apply (rule exI [of _ "[IsAvailable,
                 InstallWithDocker (staged self request) (req_manager request)
                   (req_versions request) (req_custom_args request)]"])
      apply (rule conjI)
       apply (rule pre)
      apply (simp only: handle_recording_isolated [OF miss False iso du])
      apply (rule after_install_outcome [OF pre])
      done
  next
    case noiso: False
    have pre: "\<forall>e \<in> set (if use_docker_on_version_mismatch self \<and> docker_utils self \<noteq> None
                            then [IsAvailable] else []). event_bundle e = None"
      by simp
    show ?thesis
      apply (rule exI [of _ "if use_docker_on_version_mismatch self \<and> docker_utils self \<noteq> None
                            then [IsAvailable] else []"])
      apply (rule conjI)
       apply (rule pre)
      apply (rule disjI1)
      apply (rule exI)
      apply (rule handle_recording_unsupported [OF miss False noiso])
      done
  qed
qed

lemma handle_miss_outcome:
  assumes miss: "\<not> probe_hit self (calculate_bundle_hash self request)"
  shows "\<exists>pre. (\<forall>e \<in> set pre. event_bundle e = None) \<and>
           ((\<exists>e. handle (recording self) request [] =
                   (Inl e, probe_calls self (calculate_bundle_hash self request) @ pre)) \<or>
            (\<exists>ds. handle (recording self) request [] =
                   (Inr (miss_response (calculate_bundle_hash self request)),
                    probe_calls self (calculate_bundle_hash self request) @ pre @
                      store_calls self ds (calculate_bundle_hash self request))))"
  using handle_recording_miss [OF miss, of "[]"] by (simp only: append_Nil)

lemma probe_hit_present:
  "probe_hit self h \<Longrightarrow>
   fst (get_index (cache_repository self) h ()) \<noteq> None \<and>
   fst (has_bundle (cache_repository self) h ())"
  by (simp add: probe_hit_def split: option.splits)

lemma handle_miss_flag:
  assumes miss: "\<not> probe_hit self (calculate_bundle_hash self request)"
    and resp: "fst (handle (recording self) request []) = Inr resp"
  shows "\<not> is_cache_hit resp"
proof -
  from handle_miss_outcome [OF miss] obtain pre where
    alt: "(\<exists>e. handle (recording self) request [] =
                   (Inl e, probe_calls self (calculate_bundle_hash self request) @ pre)) \<or>
          (\<exists>ds. handle (recording self) request [] =
                   (Inr (miss_response (calculate_bundle_hash self request)),
                    probe_calls self (calculate_bundle_hash self request) @ pre @
                      store_calls self ds (calculate_bundle_hash self request)))"
    by (elim exE conjE)
  from alt show ?thesis
  proof
    assume "\<exists>e. handle (recording self) request [] =
                   (Inl e, probe_calls self (calculate_bundle_hash self request) @ pre)"
    then obtain e where "handle (recording self) request [] =
                   (Inl e, probe_calls self (calculate_bundle_hash self request) @ pre)" ..
    with resp show ?thesis by simp
  next
    assume "\<exists>ds. handle (recording self) request [] =
                   (Inr (miss_response (calculate_bundle_hash self request)),
                    probe_calls self (calculate_bundle_hash self request) @ pre @
                      store_calls self ds (calculate_bundle_hash self request))"
    then obtain ds where "handle (recording self) request [] =
                   (Inr (miss_response (calculate_bundle_hash self request)),
                    probe_calls self (calculate_bundle_hash self request) @ pre @
                      store_calls self ds (calculate_bundle_hash self request))" ..
    with resp have "resp = miss_response (calculate_bundle_hash self request)" by simp
    then show ?thesis by (simp add: miss_response_def)
  qed
qed

lemma hd_probe_calls0: "hd (probe_calls self h) = GetIndex h"
  by (simp add: probe_calls_def split: option.splits)

lemma store_calls_index:
  "\<exists>m v i. SaveIndex h m v i \<in> set (xs @ store_calls self ds h)"
  by (simp add: store_calls_def) blast

lemma last_store_calls: "last (xs @ store_calls self ds h) = GenerateBundleZip h"
  by (simp add: store_calls_def)

lemma bundle_events_failed:
  assumes "\<forall>e \<in> set pre. event_bundle e = None"
  shows "\<forall>e \<in> set (probe_calls self h @ pre). event_bundle e = None \<or> event_bundle e = Some h"
  using assms by (auto dest: probe_calls_bundle)

lemma bundle_events_stored:
  assumes "\<forall>e \<in> set pre. event_bundle e = None"
  shows "\<forall>e \<in> set (probe_calls self h @ pre @ store_calls self ds h).
           event_bundle e = None \<or> event_bundle e = Some h"
  using assms by (auto dest: probe_calls_bundle store_calls_bundle)

lemma bundle_events_hit:
  "\<forall>e \<in> set (probe_calls self h). event_bundle e = None \<or> event_bundle e = Some h"
  by (auto dest: probe_calls_bundle)

section \<open>The hash function of a dependency set\<close>

text \<open>
  \<^verbatim>\<open>handle\<close> uses the hash function of dependency sets through one value only, that of
  the dependency set \<^verbatim>\<open>_calculate_bundle_hash\<close> builds from the request: replacing the
  function by another with that value leaves the run as it is.
\<close>

lemma calculate_bundle_hash_upd:
  "calculate_bundle_hash (self\<lparr>dep_set_hash := H\<rparr>) request =
     H (DependencySet_init (req_manager request)
          ((if lockfile_content request \<noteq> []
            then [DependencyFile
                    (lockfile_name (installer_factory self (req_manager request)
                       (req_versions request) (req_custom_args request)))
                    (lockfile_content request)] else []) @
           [DependencyFile
              (manifest_name (installer_factory self (req_manager request)
                 (req_versions request) (req_custom_args request)))
              (manifest_content request)])
          (get_version_kwargs (req_manager request) (req_versions request)))"
  by (simp add: calculate_bundle_hash_def Let_def)

lemma cache_probe_upd:
  "cache_probe (self\<lparr>dep_set_hash := H\<rparr>) h s = cache_probe self h s"
  by (simp add: cache_probe_def split: prod.splits option.splits)

lemma determine_installation_method_upd:
  "determine_installation_method (self\<lparr>dep_set_hash := H\<rparr>) manager versions s =
     determine_installation_method self manager versions s"
  by (simp add: determine_installation_method_def is_version_supported_def
        split: option.splits prod.splits)

lemma install_natively_upd:
  "install_natively (self\<lparr>dep_set_hash := H\<rparr>) request s = install_natively self request s"
  by (simp add: install_natively_def Let_def)

lemma install_with_docker_upd:
  "install_with_docker (self\<lparr>dep_set_hash := H\<rparr>) request s =
     install_with_docker self request s"
  by (simp add: install_with_docker_def Let_def split: option.splits)

lemma store_files_upd:
  "store_files (self\<lparr>dep_set_hash := H\<rparr>) fs index_data s = store_files self fs index_data s"
  by (induction fs arbitrary: index_data s) (simp_all add: Let_def)

lemma store_dependency_set_upd:
  "store_dependency_set (self\<lparr>dep_set_hash := H\<rparr>) dependency_set h s =
     store_dependency_set self dependency_set h s"
  by (simp add: store_dependency_set_def store_files_upd Let_def split: prod.splits)

lemma handle_hash_value_only:
  assumes "H (DependencySet_init (req_manager request)
          ((if lockfile_content request \<noteq> []
            then [DependencyFile
                    (lockfile_name (installer_factory self (req_manager request)
                       (req_versions request) (req_custom_args request)))
                    (lockfile_content request)] else []) @
           [DependencyFile
              (manifest_name (installer_factory self (req_manager request)
                 (req_versions request) (req_custom_args request)))
              (manifest_content request)])
          (get_version_kwargs (req_manager request) (req_versions request))) =
        calculate_bundle_hash self request"
  shows "handle (self\<lparr>dep_set_hash := H\<rparr>) request s = handle self request s"
  by (simp only: handle_def calculate_bundle_hash_upd assms cache_probe_upd
        determine_installation_method_upd install_natively_upd install_with_docker_upd
        store_dependency_set_upd)

lemma recording_upd:
  "recording (self\<lparr>dep_set_hash := H\<rparr>) = (recording self)\<lparr>dep_set_hash := H\<rparr>"
  by (simp add: recording_def)

section \<open>Example runs\<close>

lemma example_request_fields:
  "req_manager (example_request v l) = ''npm''"
  "req_versions (example_request v l) = v"
  "req_custom_args (example_request v l) = None"
  by (simp_all add: example_request_def)

lemma example_bundle_hash:
  "calculate_bundle_hash (example_handler I A D U) (example_request versions_node18 '''') =
     ''npm|18.0.0|9.0.0|-|package.json={};''"
  "calculate_bundle_hash (example_handler I A D U) (example_request versions_node18 ''L'') =
     ''npm|18.0.0|9.0.0|-|package-lock.json=L;package.json={};''"
  by (simp_all add: calculate_bundle_hash_def example_request_def example_handler_def
        example_installer_def manifest_names_def lockfile_names_def example_hash_def
        opt_text_def DependencySet_init_def get_version_kwargs_def versions_node18_def Let_def)

lemma example_staged:
  "staged (example_handler I A D U) (example_request v '''') = [''package.json'' \<mapsto> ''{}'']"
  "staged (example_handler I A D U) (example_request v ''L'') =
     [''package.json'' \<mapsto> ''{}'', ''package-lock.json'' \<mapsto> ''L'']"
  by (simp_all add: staged_def example_request_def example_handler_def example_installer_def
        manifest_names_def lockfile_names_def Let_def)

lemma example_empty_miss:
  "\<not> probe_hit (example_handler [] [] D U) h"
  by (simp add: probe_hit_def example_handler_def example_repository_def)

lemma example_supported:
  "is_version_supported (example_handler I A D U) ''npm'' versions_node18"
  by (simp add: is_version_supported_def example_handler_def example_support_def
        versions_node18_def)

lemma example_isolation:
  "isolation_available (example_handler I A (Some (example_docker True)) True) s"
  "\<not> isolation_available (example_handler I A (Some (example_docker False)) True) s"
  by (simp_all add: isolation_available_def example_handler_def example_docker_def)

lemma example_unsupported:
  "\<not> is_version_supported (example_handler I A D U) ''npm'' versions_node_npm"
  by (simp add: is_version_supported_def example_handler_def example_support_def
        versions_node_npm_def)

lemma example_repository_answers:
  "fst (get_index (cache_repository (example_handler I A D U)) h ()) =
     (if h \<in> set I then Some () else None)"
  "fst (has_bundle (cache_repository (example_handler I A D U)) h ()) =
     (h \<in> set I \<and> h \<in> set A)"
  by (simp_all add: example_handler_def example_repository_def)

lemma example_probe:
  "probe_hit (example_handler I A D U) h = (h \<in> set I \<and> h \<in> set A)"
  "probe_calls (example_handler I A D U) h =
     (if h \<in> set I then [GetIndex h, HasBundle h] else [GetIndex h])"
  by (simp_all add: probe_hit_def probe_calls_def example_handler_def example_repository_def)

lemma example_install_result:
  "fst (install (installer_factory (example_handler I A D U) m v c) d ()) =
     \<lparr>success = True, result_files = [FileData ''node_modules/x/index.js'' ''ok''],
      error_message = None\<rparr>"
  by (simp add: example_handler_def example_installer_def)

lemma example_store_calls:
  "store_calls (example_handler I A D U)
     (installed_set (example_request versions_node18 l)
        \<lparr>success = True, result_files = [FileData ''node_modules/x/index.js'' ''ok''],
         error_message = None\<rparr>) h =
     [StoreBlob ''h:ok'' ''ok'',
      SaveIndex h ''npm'' ''18.0.0_9.0.0'' [''node_modules/x/index.js'' \<mapsto> ''h:ok''],
      GenerateBundleZip h]"
  by (simp add: store_calls_def installed_set_def DependencySet_init_def
        get_version_kwargs_def manager_version_of_def index_of_def example_request_def
        versions_node18_def example_handler_def)

lemma example_native_run:
  assumes miss: "\<not> probe_hit (example_handler I A D U)
                    (calculate_bundle_hash (example_handler I A D U)
                       (example_request versions_node18 l))"
  shows "handle (recording (example_handler I A D U)) (example_request versions_node18 l) [] =
     (Inr (miss_response (calculate_bundle_hash (example_handler I A D U)
                            (example_request versions_node18 l))),
      probe_calls (example_handler I A D U)
          (calculate_bundle_hash (example_handler I A D U) (example_request versions_node18 l)) @
        [Install (staged (example_handler I A D U) (example_request versions_node18 l)),
         StoreBlob ''h:ok'' ''ok'',
         SaveIndex (calculate_bundle_hash (example_handler I A D U)
                      (example_request versions_node18 l))
           ''npm'' ''18.0.0_9.0.0'' [''node_modules/x/index.js'' \<mapsto> ''h:ok''],
         GenerateBundleZip (calculate_bundle_hash (example_handler I A D U)
                              (example_request versions_node18 l))])"
proof -
  let ?H = "example_handler I A D U"
  let ?R = "example_request versions_node18 l"
  let ?h = "calculate_bundle_hash ?H ?R"
  let ?res = "\<lparr>success = True, result_files = [FileData ''node_modules/x/index.js'' ''ok''],
               error_message = None\<rparr>"
  have sup: "is_version_supported ?H (req_manager ?R) (req_versions ?R)"
    by (simp only: example_request_fields example_supported)
  have "handle (recording ?H) ?R [] =
          after_install ?H ?R
            (fst (install (installer_factory ?H (req_manager ?R) (req_versions ?R)
                             (req_custom_args ?R)) (staged ?H ?R) ()))
            ([] @ probe_calls ?H ?h @ [Install (staged ?H ?R)])"
    by (rule handle_recording_native [OF miss sup])
  then have 1: "handle (recording ?H) ?R [] =
          after_install ?H ?R ?res (probe_calls ?H ?h @ [Install (staged ?H ?R)])"
    by (simp only: example_install_result append_Nil)
  have 2: "after_install ?H ?R ?res (probe_calls ?H ?h @ [Install (staged ?H ?R)]) =
          (Inr (miss_response ?h),
           (probe_calls ?H ?h @ [Install (staged ?H ?R)]) @
             store_calls ?H (installed_set ?R ?res) ?h)"
    by (rule after_install_success) simp
  show ?thesis
    by (simp only: 1 2 example_store_calls append_assoc append_Cons append_Nil)
qed

lemma example_hit_run:
  "handle (recording (example_handler [''npm|18.0.0|9.0.0|-|package.json={};'']
             [''npm|18.0.0|9.0.0|-|package.json={};''] None False))
     (example_request versions_node18 '''') [] =
     (Inr (hit_response ''npm|18.0.0|9.0.0|-|package.json={};''),
      [GetIndex ''npm|18.0.0|9.0.0|-|package.json={};'',
       HasBundle ''npm|18.0.0|9.0.0|-|package.json={};''])"
  using handle_recording_hit
      [of "example_handler [''npm|18.0.0|9.0.0|-|package.json={};'']
             [''npm|18.0.0|9.0.0|-|package.json={};''] None False"
        "example_request versions_node18 ''''" "[]"]
  by (simp add: example_bundle_hash example_probe)

lemma example_stale_run:
  "handle (recording (example_handler [''npm|18.0.0|9.0.0|-|package.json={};''] [] None False))
     (example_request versions_node18 '''') [] =
     (Inr (miss_response ''npm|18.0.0|9.0.0|-|package.json={};''),
      [GetIndex ''npm|18.0.0|9.0.0|-|package.json={};'',
       HasBundle ''npm|18.0.0|9.0.0|-|package.json={};'',
       Install [''package.json'' \<mapsto> ''{}''],
       StoreBlob ''h:ok'' ''ok'',
       SaveIndex ''npm|18.0.0|9.0.0|-|package.json={};'' ''npm'' ''18.0.0_9.0.0''
         [''node_modules/x/index.js'' \<mapsto> ''h:ok''],
       GenerateBundleZip ''npm|18.0.0|9.0.0|-|package.json={};''])"
  using example_native_run
      [of "[''npm|18.0.0|9.0.0|-|package.json={};'']" "[]" None False "''''"]
  by (simp add: example_bundle_hash example_probe example_staged)

lemma example_lockfile_run:
  "handle (recording (example_handler [] [] None False))
     (example_request versions_node18 ''L'') [] =
     (Inr (miss_response ''npm|18.0.0|9.0.0|-|package-lock.json=L;package.json={};''),
      [GetIndex ''npm|18.0.0|9.0.0|-|package-lock.json=L;package.json={};'',
       Install [''package.json'' \<mapsto> ''{}'', ''package-lock.json'' \<mapsto> ''L''],
       StoreBlob ''h:ok'' ''ok'',
       SaveIndex ''npm|18.0.0|9.0.0|-|package-lock.json=L;package.json={};'' ''npm''
         ''18.0.0_9.0.0'' [''node_modules/x/index.js'' \<mapsto> ''h:ok''],
       GenerateBundleZip ''npm|18.0.0|9.0.0|-|package-lock.json=L;package.json={};''])"
  using example_native_run [of "[]" "[]" None False "''L''"]
  by (simp add: example_bundle_hash example_probe example_staged)

section \<open>The choice of the installation method\<close>

text \<open>
  C8: on a cache miss the installation method is \<^verbatim>\<open>native\<close> when the version policy
  reports supported; otherwise \<^verbatim>\<open>docker\<close> when isolation on mismatch is enabled and an
  isolation capability is available; otherwise the request fails with the
  unsupported-version error and no installer has been called and nothing has been stored.
  The first three conjuncts are the result of \<^verbatim>\<open>_determine_installation_method\<close>; the
  last is \<^verbatim>\<open>handle\<close> when the probe misses: the installer calls of the run are exactly
  one native call on the staged directory, exactly one isolated call on it, or none.
\<close>

theorem installation_method_choice:
  "(let manager = req_manager request;
        versions = req_versions request;
        supported = is_version_supported self manager versions;
        installation_method = fst (determine_installation_method (recording self) manager versions log);
        out = handle (recording self) request []
    in (supported \<longrightarrow> installation_method = Inr ''native'') \<and>
       (\<not> supported \<and> isolation_available self () \<longrightarrow> installation_method = Inr ''docker'') \<and>
       (\<not> supported \<and> \<not> isolation_available self () \<longrightarrow>
          installation_method = Inl (ValueError (unsupported_message manager))) \<and>
       (\<not> fst (cache_probe (recording self) (calculate_bundle_hash self request) []) \<longrightarrow>
          (supported \<longrightarrow>
             filter is_install (snd out) = [Install (staged self request)]) \<and>
          (\<not> supported \<and> isolation_available self () \<longrightarrow>
             filter is_install (snd out) =
               [InstallWithDocker (staged self request) manager versions
                  (req_custom_args request)]) \<and>
          (\<not> supported \<and> \<not> isolation_available self () \<longrightarrow>
             fst out = Inl (ValueError (unsupported_message manager)) \<and>
             \<not> list_ex installs_or_stores (snd out))))"
proof -
  let ?m = "req_manager request"
  let ?v = "req_versions request"
  let ?sup = "is_version_supported self ?m ?v"
  let ?iso = "isolation_available self ()"
  let ?chosen = "fst (determine_installation_method (recording self) ?m ?v log)"
  let ?out = "handle (recording self) request []"
  let ?miss = "\<not> fst (cache_probe (recording self) (calculate_bundle_hash self request) [])"
  have m1: "?sup \<Longrightarrow> ?chosen = Inr ''native''"
    by (simp only: determine_method if_True)
  have m2: "\<not> ?sup \<and> ?iso \<Longrightarrow> ?chosen = Inr ''docker''"
    by (simp only: determine_method if_True if_False)
  have m3: "\<not> ?sup \<and> \<not> ?iso \<Longrightarrow> ?chosen = Inl (ValueError (unsupported_message ?m))"
    by (simp only: determine_method if_True if_False)
  have i1: "?miss \<Longrightarrow> ?sup \<Longrightarrow> filter is_install (snd ?out) = [Install (staged self request)]"
    unfolding cache_probe_fst by (rule handle_native_installs)
  have i2: "?miss \<Longrightarrow> \<not> ?sup \<and> ?iso \<Longrightarrow>
      filter is_install (snd ?out) =
        [InstallWithDocker (staged self request) ?m ?v (req_custom_args request)]"
    unfolding cache_probe_fst by (erule conjE, rule handle_isolated_installs)
  have i3: "?miss \<Longrightarrow> \<not> ?sup \<and> \<not> ?iso \<Longrightarrow>
      fst ?out = Inl (ValueError (unsupported_message ?m))"
    unfolding cache_probe_fst by (erule conjE, rule handle_unsupported_fails(1))
  have i4: "?miss \<Longrightarrow> \<not> ?sup \<and> \<not> ?iso \<Longrightarrow>
      \<not> list_ex installs_or_stores (snd ?out)"
    unfolding cache_probe_fst by (erule conjE, rule handle_unsupported_fails(2))
  show ?thesis
    unfolding Let_def
    by (intro conjI impI; (rule m1 m2 m3 i1 i2 i3 i4; assumption))
qed

theorem installation_method_choice_witness:
  "filter is_install
     (snd (handle (recording (example_handler [] [] None False))
             (example_request versions_node18 '''') [])) =
     [Install [''package.json'' \<mapsto> ''{}'']] \<and>
   filter is_install
     (snd (handle (recording (example_handler [] [] (Some (example_docker True)) True))
             (example_request versions_node_npm '''') [])) =
     [InstallWithDocker [''package.json'' \<mapsto> ''{}''] ''npm'' versions_node_npm None] \<and>
   fst (determine_installation_method
          (recording (example_handler [] [] (Some (example_docker False)) True))
          ''npm'' versions_node_npm []) =
     Inl (ValueError ''Unsupported npm version and Docker is not available'') \<and>
   fst (handle (recording (example_handler [] [] (Some (example_docker False)) True))
          (example_request versions_node_npm '''') []) =
     Inl (ValueError ''Unsupported npm version and Docker is not available'') \<and>
   \<not> list_ex installs_or_stores
       (snd (handle (recording (example_handler [] [] (Some (example_docker False)) True))
               (example_request versions_node_npm '''') []))"
  using installation_method_choice
      [of "example_request versions_node18 ''''" "example_handler [] [] None False" "[]"]
    installation_method_choice
      [of "example_request versions_node_npm ''''"
        "example_handler [] [] (Some (example_docker True)) True" "[]"]
    installation_method_choice
      [of "example_request versions_node_npm ''''"
        "example_handler [] [] (Some (example_docker False)) True" "[]"]
  by (simp add: Let_def cache_probe_fst example_request_fields example_staged example_empty_miss
        example_supported example_unsupported example_isolation unsupported_message_def)

section \<open>Cache hits\<close>

text \<open>
  C4: \<^verbatim>\<open>handle\<close> answers with \<^verbatim>\<open>is_cache_hit\<close> true only when the repository has both the
  index and the archive of the bundle id; when it has an index and no archive the request
  is a miss: no response says hit, and the installation runs as on any miss (one native
  installer call, or one isolated call, or the unsupported-version error of the method
  choice).
\<close>

theorem cache_hit_requires_index_and_archive:
  "(let h = calculate_bundle_hash self request;
        index_present = (fst (get_index (cache_repository self) h ()) \<noteq> None);
        archive_present = fst (has_bundle (cache_repository self) h ());
        supported = is_version_supported self (req_manager request) (req_versions request);
        out = handle (recording self) request []
    in (\<forall>resp. fst out = Inr resp \<and> is_cache_hit resp \<longrightarrow> index_present \<and> archive_present) \<and>
       (index_present \<and> \<not> archive_present \<longrightarrow>
          (\<forall>resp. fst out = Inr resp \<longrightarrow> \<not> is_cache_hit resp) \<and>
          (supported \<longrightarrow> filter is_install (snd out) = [Install (staged self request)]) \<and>
          (\<not> supported \<and> isolation_available self () \<longrightarrow>
             filter is_install (snd out) =
               [InstallWithDocker (staged self request) (req_manager request)
                  (req_versions request) (req_custom_args request)]) \<and>
          (\<not> supported \<and> \<not> isolation_available self () \<longrightarrow>
             fst out = Inl (ValueError (unsupported_message (req_manager request))))))"
proof -
  let ?h = "calculate_bundle_hash self request"
  let ?ip = "fst (get_index (cache_repository self) ?h ()) \<noteq> None"
  let ?ap = "fst (has_bundle (cache_repository self) ?h ())"
  let ?sup = "is_version_supported self (req_manager request) (req_versions request)"
  let ?iso = "isolation_available self ()"
  let ?out = "handle (recording self) request []"
  have hit: "\<forall>resp. fst ?out = Inr resp \<and> is_cache_hit resp \<longrightarrow> ?ip \<and> ?ap"
  proof (intro allI impI, elim conjE)
    fix resp
    assume r: "fst ?out = Inr resp" and f: "is_cache_hit resp"
    have "probe_hit self ?h"
    proof (rule ccontr)
      assume "\<not> probe_hit self ?h"
      from handle_miss_flag [OF this r] f show False ..
    qed
    then show "?ip \<and> ?ap" by (rule probe_hit_present)
  qed
  have miss: "\<not> probe_hit self ?h" if "?ip \<and> \<not> ?ap"
  proof
    assume "probe_hit self ?h"
    then have "?ap" by (rule probe_hit_present [THEN conjunct2])
    with that show False by (elim conjE notE)
  qed
  have s1: "?ip \<and> \<not> ?ap \<Longrightarrow> \<forall>resp. fst ?out = Inr resp \<longrightarrow> \<not> is_cache_hit resp"
    by (intro allI impI) (rule handle_miss_flag [OF miss])
  have s2: "?ip \<and> \<not> ?ap \<Longrightarrow> ?sup \<Longrightarrow>
      filter is_install (snd ?out) = [Install (staged self request)]"
    by (rule handle_native_installs [OF miss])
  have s3: "?ip \<and> \<not> ?ap \<Longrightarrow> \<not> ?sup \<and> ?iso \<Longrightarrow>
      filter is_install (snd ?out) =
        [InstallWithDocker (staged self request) (req_manager request)
           (req_versions request) (req_custom_args request)]"
    by (erule conjE [of "\<not> ?sup"], rule handle_isolated_installs [OF miss])
  have s4: "?ip \<and> \<not> ?ap \<Longrightarrow> \<not> ?sup \<and> \<not> ?iso \<Longrightarrow>
      fst ?out = Inl (ValueError (unsupported_message (req_manager request)))"
    by (erule conjE [of "\<not> ?sup"], rule handle_unsupported_fails(1) [OF miss])
  show ?thesis
    unfolding Let_def
    by (intro conjI impI; (rule hit s1 s2 s3 s4; assumption))
qed

theorem cache_hit_requires_index_and_archive_witness:
  "fst (handle (recording (example_handler [''npm|18.0.0|9.0.0|-|package.json={};'']
                  [''npm|18.0.0|9.0.0|-|package.json={};''] None False))
          (example_request versions_node18 '''') []) =
     Inr \<lparr>resp_bundle_hash = ''npm|18.0.0|9.0.0|-|package.json={};'',
          resp_download_url = ''/download/npm|18.0.0|9.0.0|-|package.json={};.zip'',
          is_cache_hit = True\<rparr> \<and>
   fst (get_index (cache_repository (example_handler [''npm|18.0.0|9.0.0|-|package.json={};'']
                  [''npm|18.0.0|9.0.0|-|package.json={};''] None False))
          ''npm|18.0.0|9.0.0|-|package.json={};'' ()) \<noteq> None \<and>
   fst (has_bundle (cache_repository (example_handler [''npm|18.0.0|9.0.0|-|package.json={};'']
                  [''npm|18.0.0|9.0.0|-|package.json={};''] None False))
          ''npm|18.0.0|9.0.0|-|package.json={};'' ()) \<and>
   fst (get_index (cache_repository
                     (example_handler [''npm|18.0.0|9.0.0|-|package.json={};''] [] None False))
          ''npm|18.0.0|9.0.0|-|package.json={};'' ()) \<noteq> None \<and>
   \<not> fst (has_bundle (cache_repository
                     (example_handler [''npm|18.0.0|9.0.0|-|package.json={};''] [] None False))
          ''npm|18.0.0|9.0.0|-|package.json={};'' ()) \<and>
   fst (handle (recording (example_handler [''npm|18.0.0|9.0.0|-|package.json={};''] []
                  None False))
          (example_request versions_node18 '''') []) =
     Inr \<lparr>resp_bundle_hash = ''npm|18.0.0|9.0.0|-|package.json={};'',
          resp_download_url = ''/download/npm|18.0.0|9.0.0|-|package.json={};.zip'',
          is_cache_hit = False\<rparr> \<and>
   filter is_install
     (snd (handle (recording (example_handler [''npm|18.0.0|9.0.0|-|package.json={};''] []
                     None False))
             (example_request versions_node18 '''') [])) =
     [Install [''package.json'' \<mapsto> ''{}'']]"
  using cache_hit_requires_index_and_archive
      [of "example_handler [''npm|18.0.0|9.0.0|-|package.json={};'']
             [''npm|18.0.0|9.0.0|-|package.json={};''] None False"
        "example_request versions_node18 ''''"]
    cache_hit_requires_index_and_archive
      [of "example_handler [''npm|18.0.0|9.0.0|-|package.json={};''] [] None False"
        "example_request versions_node18 ''''"]
  by (simp add: Let_def example_bundle_hash example_repository_answers example_hit_run
        example_stale_run example_request_fields example_supported example_staged
        hit_response_def miss_response_def)

section \<open>The bundle id of a request\<close>

text \<open>
  C5: in one run of \<^verbatim>\<open>handle\<close> the bundle id \<open>h\<close> is the hash of the dependency set
  built from the declared manifest, lockfile and versions of the request; the run
  depends on the hash function through this one value only (any hash function with the
  same value on the declared set gives the same run, so no other dependency set, such
  as the installer's output, is hashed into anything the run uses); the probe is made
  with \<open>h\<close>, every repository call that takes a bundle id takes \<open>h\<close>, the response
  carries \<open>h\<close> and the download path of \<open>h\<close>, and on a miss that succeeds the index and
  the archive are stored under \<open>h\<close>.  The hash of a dependency set is a function in this
  development: that it is computed once is the statement that the run uses one value of
  it.
\<close>

theorem bundle_id_one_value:
  "(let h = calculate_bundle_hash self request;
        installer = installer_factory self (req_manager request) (req_versions request)
                      (req_custom_args request);
        declared =
          (if lockfile_content request \<noteq> []
           then [DependencyFile (lockfile_name installer) (lockfile_content request)] else []) @
          [DependencyFile (manifest_name installer) (manifest_content request)];
        declared_set =
          DependencySet_init (req_manager request) declared
            (get_version_kwargs (req_manager request) (req_versions request));
        out = handle (recording self) request []
    in h = dep_set_hash self declared_set \<and>
       (\<forall>H. H declared_set = h \<longrightarrow>
          handle (recording (self\<lparr>dep_set_hash := H\<rparr>)) request [] = out) \<and>
       hd (snd out) = GetIndex h \<and>
       (\<forall>e \<in> set (snd out). event_bundle e = None \<or> event_bundle e = Some h) \<and>
       (\<forall>resp. fst out = Inr resp \<longrightarrow>
          resp_bundle_hash resp = h \<and>
          resp_download_url resp = ''/download/'' @ h @ ''.zip'' \<and>
          (\<not> is_cache_hit resp \<longrightarrow>
             (\<exists>m v i. SaveIndex h m v i \<in> set (snd out)) \<and>
             last (snd out) = GenerateBundleZip h)))"
proof -
  let ?h = "calculate_bundle_hash self request"
  let ?out = "handle (recording self) request []"
  let ?resp = "\<lambda>out. \<forall>resp. fst out = Inr resp \<longrightarrow>
          resp_bundle_hash resp = ?h \<and>
          resp_download_url resp = ''/download/'' @ ?h @ ''.zip'' \<and>
          (\<not> is_cache_hit resp \<longrightarrow>
             (\<exists>m v i. SaveIndex ?h m v i \<in> set (snd out)) \<and>
             last (snd out) = GenerateBundleZip ?h)"
  have a: "?h = dep_set_hash self
             (DependencySet_init (req_manager request)
                ((if lockfile_content request \<noteq> []
                  then [DependencyFile
                          (lockfile_name (installer_factory self (req_manager request)
                             (req_versions request) (req_custom_args request)))
                          (lockfile_content request)] else []) @
                 [DependencyFile
                    (manifest_name (installer_factory self (req_manager request)
                       (req_versions request) (req_custom_args request)))
                    (manifest_content request)])
                (get_version_kwargs (req_manager request) (req_versions request)))"
    by (simp add: calculate_bundle_hash_def Let_def)
  have b: "hd (snd ?out) = GetIndex ?h \<and>
           (\<forall>e \<in> set (snd ?out). event_bundle e = None \<or> event_bundle e = Some ?h) \<and>
           ?resp ?out"
  proof (cases "probe_hit self ?h")
    case True
    have out: "?out = (Inr (hit_response ?h), probe_calls self ?h)"
      using handle_recording_hit [OF True, of "[]"] by (simp only: append_Nil)
    have 1: "hd (snd ?out) = GetIndex ?h"
      by (simp only: out snd_conv hd_probe_calls0)
    have 2: "\<forall>e \<in> set (snd ?out). event_bundle e = None \<or> event_bundle e = Some ?h"
      by (simp only: out snd_conv) (rule bundle_events_hit)
    have 3: "?resp ?out"
      by (simp only: out fst_conv) (simp add: hit_response_def)
    show ?thesis by (intro conjI; rule 1 2 3)
  next
    case False
    from handle_miss_outcome [OF False] obtain pre where
      pre: "\<forall>e \<in> set pre. event_bundle e = None" and
      alt: "(\<exists>e. ?out = (Inl e, probe_calls self ?h @ pre)) \<or>
            (\<exists>ds. ?out = (Inr (miss_response ?h),
                           probe_calls self ?h @ pre @ store_calls self ds ?h))"
      by (elim exE conjE)
    from alt show ?thesis
    proof
      assume "\<exists>e. ?out = (Inl e, probe_calls self ?h @ pre)"
      then obtain e where out: "?out = (Inl e, probe_calls self ?h @ pre)" ..
      have 1: "hd (snd ?out) = GetIndex ?h"
        by (simp only: out snd_conv hd_probe_calls)
      have 2: "\<forall>e \<in> set (snd ?out). event_bundle e = None \<or> event_bundle e = Some ?h"
        by (simp only: out snd_conv) (rule bundle_events_failed [OF pre])
      have 3: "?resp ?out"
        by (simp only: out fst_conv) simp
      show ?thesis by (intro conjI; rule 1 2 3)
    next
      assume "\<exists>ds. ?out = (Inr (miss_response ?h),
                           probe_calls self ?h @ pre @ store_calls self ds ?h)"
      then obtain ds where out: "?out = (Inr (miss_response ?h),
                           probe_calls self ?h @ pre @ store_calls self ds ?h)" ..
      have 1: "hd (snd ?out) = GetIndex ?h"
        by (simp only: out snd_conv hd_probe_calls)
      have 2: "\<forall>e \<in> set (snd ?out). event_bundle e = None \<or> event_bundle e = Some ?h"
        by (simp only: out snd_conv) (rule bundle_events_stored [OF pre])
      have s: "\<exists>m v i. SaveIndex ?h m v i \<in> set (probe_calls self ?h @ pre @ store_calls self ds ?h)"
        using store_calls_index [of ?h "probe_calls self ?h @ pre" self ds]
        by (simp only: append_assoc)
      have l: "last (probe_calls self ?h @ pre @ store_calls self ds ?h) = GenerateBundleZip ?h"
        using last_store_calls [of "probe_calls self ?h @ pre" self ds ?h]
        by (simp only: append_assoc)
      have 3: "?resp ?out"
      proof (intro allI impI)
        fix resp
        assume "fst ?out = Inr resp"
        then have r: "resp = miss_response ?h"
          by (simp add: out)
        have f1: "resp_bundle_hash resp = ?h"
          by (simp add: r miss_response_def)
        have f2: "resp_download_url resp = ''/download/'' @ ?h @ ''.zip''"
          by (simp add: r miss_response_def)
        have f3: "\<exists>m v i. SaveIndex ?h m v i \<in> set (snd ?out)"
          by (simp only: out snd_conv) (rule s)
        have f4: "last (snd ?out) = GenerateBundleZip ?h"
          by (simp only: out snd_conv) (rule l)
        show "resp_bundle_hash resp = ?h \<and>
          resp_download_url resp = ''/download/'' @ ?h @ ''.zip'' \<and>
          (\<not> is_cache_hit resp \<longrightarrow>
             (\<exists>m v i. SaveIndex ?h m v i \<in> set (snd ?out)) \<and>
             last (snd ?out) = GenerateBundleZip ?h)"
          by (intro conjI impI; rule f1 f2 f3 f4)
      qed
      show ?thesis by (intro conjI; rule 1 2 3)
    qed
  qed
  have c: "\<forall>H. H (DependencySet_init (req_manager request)
                ((if lockfile_content request \<noteq> []
                  then [DependencyFile
                          (lockfile_name (installer_factory self (req_manager request)
                             (req_versions request) (req_custom_args request)))
                          (lockfile_content request)] else []) @
                 [DependencyFile
                    (manifest_name (installer_factory self (req_manager request)
                       (req_versions request) (req_custom_args request)))
                    (manifest_content request)])
                (get_version_kwargs (req_manager request) (req_versions request))) = ?h \<longrightarrow>
          handle (recording (self\<lparr>dep_set_hash := H\<rparr>)) request [] = ?out"
  proof (intro allI impI)
    fix H
    assume "H (DependencySet_init (req_manager request)
                ((if lockfile_content request \<noteq> []
                  then [DependencyFile
                          (lockfile_name (installer_factory self (req_manager request)
                             (req_versions request) (req_custom_args request)))
                          (lockfile_content request)] else []) @
                 [DependencyFile
                    (manifest_name (installer_factory self (req_manager request)
                       (req_versions request) (req_custom_args request)))
                    (manifest_content request)])
                (get_version_kwargs (req_manager request) (req_versions request))) = ?h"
    then have "H (DependencySet_init (req_manager request)
                ((if lockfile_content request \<noteq> []
                  then [DependencyFile
                          (lockfile_name (installer_factory (recording self) (req_manager request)
                             (req_versions request) (req_custom_args request)))
                          (lockfile_content request)] else []) @
                 [DependencyFile
                    (manifest_name (installer_factory (recording self) (req_manager request)
                       (req_versions request) (req_custom_args request)))
                    (manifest_content request)])
                (get_version_kwargs (req_manager request) (req_versions request))) =
              calculate_bundle_hash (recording self) request"
      by (simp only: recording_simps recording_installer_simps calculate_bundle_hash_recording)
    then have "handle ((recording self)\<lparr>dep_set_hash := H\<rparr>) request [] = ?out"
      by (rule handle_hash_value_only)
    then show "handle (recording (self\<lparr>dep_set_hash := H\<rparr>)) request [] = ?out"
      by (simp only: recording_upd)
  qed
  show ?thesis
    unfolding Let_def
    by (rule conjI, rule a, rule conjI, rule c, rule b)
qed

theorem bundle_id_one_value_witness:
  "handle (recording (example_handler [] [] None False))
     (example_request versions_node18 ''L'') [] =
     (Inr \<lparr>resp_bundle_hash = ''npm|18.0.0|9.0.0|-|package-lock.json=L;package.json={};'',
           resp_download_url =
             ''/download/npm|18.0.0|9.0.0|-|package-lock.json=L;package.json={};.zip'',
           is_cache_hit = False\<rparr>,
      [GetIndex ''npm|18.0.0|9.0.0|-|package-lock.json=L;package.json={};'',
       Install [''package.json'' \<mapsto> ''{}'', ''package-lock.json'' \<mapsto> ''L''],
       StoreBlob ''h:ok'' ''ok'',
       SaveIndex ''npm|18.0.0|9.0.0|-|package-lock.json=L;package.json={};'' ''npm''
         ''18.0.0_9.0.0'' [''node_modules/x/index.js'' \<mapsto> ''h:ok''],
       GenerateBundleZip ''npm|18.0.0|9.0.0|-|package-lock.json=L;package.json={};'']) \<and>
   hd (snd (handle (recording (example_handler [] [] None False))
              (example_request versions_node18 ''L'') [])) =
     GetIndex ''npm|18.0.0|9.0.0|-|package-lock.json=L;package.json={};'' \<and>
   handle (recording ((example_handler [] [] None False)
             \<lparr>dep_set_hash :=
                \<lambda>d. ''npm|18.0.0|9.0.0|-|package-lock.json=L;package.json={};''\<rparr>))
     (example_request versions_node18 ''L'') [] =
   handle (recording (example_handler [] [] None False))
     (example_request versions_node18 ''L'') [] \<and>
   example_hash (DependencySet_init ''npm'' [DependencyFile ''node_modules/x/index.js'' ''ok'']
                   (get_version_kwargs ''npm'' versions_node18)) =
     ''npm|18.0.0|9.0.0|-|node_modules/x/index.js=ok;''"
proof -
  let ?H = "example_handler [] [] None False"
  let ?R = "example_request versions_node18 ''L''"
  note t = bundle_id_one_value [of ?H ?R, unfolded Let_def]
  from t have "hd (snd (handle (recording ?H) ?R [])) = GetIndex (calculate_bundle_hash ?H ?R)"
    by (elim conjE)
  then have probe: "hd (snd (handle (recording ?H) ?R [])) =
      GetIndex ''npm|18.0.0|9.0.0|-|package-lock.json=L;package.json={};''"
    by (simp only: example_bundle_hash)
  from t have "\<forall>H. H (DependencySet_init (req_manager ?R)
                ((if lockfile_content ?R \<noteq> []
                  then [DependencyFile
                          (lockfile_name (installer_factory ?H (req_manager ?R)
                             (req_versions ?R) (req_custom_args ?R)))
                          (lockfile_content ?R)] else []) @
                 [DependencyFile
                    (manifest_name (installer_factory ?H (req_manager ?R)
                       (req_versions ?R) (req_custom_args ?R)))
                    (manifest_content ?R)])
                (get_version_kwargs (req_manager ?R) (req_versions ?R))) =
              calculate_bundle_hash ?H ?R \<longrightarrow>
          handle (recording (?H\<lparr>dep_set_hash := H\<rparr>)) ?R [] = handle (recording ?H) ?R []"
    by (elim conjE)
  then have "''npm|18.0.0|9.0.0|-|package-lock.json=L;package.json={};'' =
               calculate_bundle_hash ?H ?R \<longrightarrow>
      handle (recording (?H\<lparr>dep_set_hash :=
                \<lambda>d. ''npm|18.0.0|9.0.0|-|package-lock.json=L;package.json={};''\<rparr>)) ?R [] =
      handle (recording ?H) ?R []"
    by (rule spec)
  then have same: "handle (recording (?H\<lparr>dep_set_hash :=
                \<lambda>d. ''npm|18.0.0|9.0.0|-|package-lock.json=L;package.json={};''\<rparr>)) ?R [] =
      handle (recording ?H) ?R []"
    by (rule mp) (simp only: example_bundle_hash)
  have run: "handle (recording ?H) ?R [] =
     (Inr \<lparr>resp_bundle_hash = ''npm|18.0.0|9.0.0|-|package-lock.json=L;package.json={};'',
           resp_download_url =
             ''/download/npm|18.0.0|9.0.0|-|package-lock.json=L;package.json={};.zip'',
           is_cache_hit = False\<rparr>,
      [GetIndex ''npm|18.0.0|9.0.0|-|package-lock.json=L;package.json={};'',
       Install [''package.json'' \<mapsto> ''{}'', ''package-lock.json'' \<mapsto> ''L''],
       StoreBlob ''h:ok'' ''ok'',
       SaveIndex ''npm|18.0.0|9.0.0|-|package-lock.json=L;package.json={};'' ''npm''
         ''18.0.0_9.0.0'' [''node_modules/x/index.js'' \<mapsto> ''h:ok''],
       GenerateBundleZip ''npm|18.0.0|9.0.0|-|package-lock.json=L;package.json={};''])"
    by (simp add: example_lockfile_run miss_response_def)
  have out: "example_hash (DependencySet_init ''npm''
                 [DependencyFile ''node_modules/x/index.js'' ''ok'']
                 (get_version_kwargs ''npm'' versions_node18)) =
     ''npm|18.0.0|9.0.0|-|node_modules/x/index.js=ok;''"
    by (simp add: example_hash_def opt_text_def DependencySet_init_def get_version_kwargs_def
          versions_node18_def)
  show ?thesis
    by (intro conjI; rule run probe same out)
qed

section \<open>Unsupported versions at the endpoint\<close>

lemma determine_unsupported:
  assumes "\<not> is_version_supported self manager versions"
    and "\<not> isolation_available self s"
  shows "fst (determine_installation_method self manager versions s) =
           Inl (ValueError (unsupported_message manager))"
proof (cases "docker_utils self")
  case None
  with assms show ?thesis by (simp add: determine_installation_method_def)
next
  case (Some du)
  with assms show ?thesis
    by (cases "is_available du s")
       (simp add: determine_installation_method_def isolation_available_def)
qed

lemma handle_unsupported:
  assumes "\<not> fst (cache_probe self (calculate_bundle_hash self request) s)"
    and "\<not> is_version_supported self (req_manager request) (req_versions request)"
    and "\<not> isolation_available self (snd (cache_probe self (calculate_bundle_hash self request) s))"
  shows "fst (handle self request s) = Inl (ValueError (unsupported_message (req_manager request)))"
proof -
  obtain hit s1 where p: "cache_probe self (calculate_bundle_hash self request) s = (hit, s1)"
    by (cases "cache_probe self (calculate_bundle_hash self request) s")
  obtain r s2 where d: "determine_installation_method self (req_manager request)
                          (req_versions request) s1 = (r, s2)"
    by (cases "determine_installation_method self (req_manager request) (req_versions request) s1")
  from assms(1) p have nohit: "\<not> hit" by simp
  from assms(3) p have "\<not> isolation_available self s1" by simp
  from determine_unsupported [OF assms(2) this] d
  have r: "r = Inl (ValueError (unsupported_message (req_manager request)))" by simp
  show ?thesis
    by (simp add: handle_def Let_def p nohit d r)
qed

lemma identify_files_nonempty:
  "identify_files mn ln file = Inr r \<Longrightarrow> file \<noteq> []"
  by (cases "file") (simp_all add: identify_files_def)

lemma cache_dependencies_value_error:
  assumes "config g = Some cfg" and "g_cache_repository g = Some repository"
    and "parse_custom_args custom_args = Inr custom_args_list"
    and "manager \<in> set [''npm'', ''composer'', ''yarn'']"
    and "identify_files (manifest_names manager) (lockfile_names manager) file =
           Inr (manifest_content', lockfile_content')"
    and "fst (handle (api_handler g cfg repository)
                \<lparr>req_manager = manager, req_versions = versions_dict,
                 lockfile_content = lockfile_content', manifest_content = manifest_content',
                 req_custom_args = custom_args_list\<rparr> s) = Inl (ValueError msg)"
  shows "fst (cache_dependencies g manager hash (Decoded versions_dict) file custom_args s) =
           HTTPException 400 msg"
proof -
  have nonempty: "file \<noteq> []" using assms(5) by (rule identify_files_nonempty)
  obtain s2 where h: "handle \<lparr>cache_repository = repository,
                                   installer_factory = InstallerFactory g,
                                   docker_utils = g_docker_utils g,
                                   supported_versions = cfg_supported_versions cfg,
                                   use_docker_on_version_mismatch =
                                     cfg_use_docker_on_version_mismatch cfg,
                                   dep_set_hash = g_dep_set_hash g,
                                   blob_hash = g_blob_hash g\<rparr>
                \<lparr>req_manager = manager, req_versions = versions_dict,
                 lockfile_content = lockfile_content', manifest_content = manifest_content',
                 req_custom_args = custom_args_list\<rparr> s = (Inl (ValueError msg), s2)"
    using assms(6) unfolding api_handler_def
    by (metis prod.collapse)
  from assms(4) have m: "manager = ''npm'' \<or> manager = ''composer'' \<or> manager = ''yarn''"
    by simp
  show ?thesis
    unfolding cache_dependencies_def
    by (simp only: assms(1,2,3,5) h nonempty m prod.case option.case decoded.case sum.case
          Let_def if_False error.case fst_conv list.set insert_iff empty_iff simp_thms
          length_0_conv)
qed

lemma example_identify:
  "identify_files (manifest_names ''npm'') (lockfile_names ''npm'')
     [\<lparr>filename = Some ''package.json'', file_content = ''{}''\<rparr>] = Inr (''{}'', [])"
  by (simp add: identify_files_def manifest_names_def lockfile_names_def lower_def
        lower_char_def)

lemma example_identify_upper:
  "identify_files (manifest_names ''npm'') (lockfile_names ''npm'')
     [\<lparr>filename = Some ''Package.JSON'', file_content = ''{}''\<rparr>,
      \<lparr>filename = Some ''package-lock.json'', file_content = ''L''\<rparr>] = Inr (''{}'', ''L'')"
  by (simp add: identify_files_def manifest_names_def lockfile_names_def lower_def
        lower_char_def char_of_def bit_0)

lemma example_api_handler:
  "api_handler example_globals
     \<lparr>cfg_supported_versions = example_support, cfg_use_docker_on_version_mismatch = False,
      base_url = ''http://localhost:8000''\<rparr> (example_repository [] []) =
   example_handler [] [] None False"
  by (simp add: api_handler_def example_globals_def example_handler_def)

lemma example_globals_fields:
  "config example_globals =
     Some \<lparr>cfg_supported_versions = example_support,
            cfg_use_docker_on_version_mismatch = False, base_url = ''http://localhost:8000''\<rparr>"
  "g_cache_repository example_globals = Some (example_repository [] [])"
  by (simp_all add: example_globals_def)

lemma example_probe_miss:
  "cache_probe (example_handler [] [] D U) h s = (False, s)"
  by (simp add: cache_probe_def example_handler_def example_repository_def)

lemma example_no_isolation:
  "\<not> isolation_available (example_handler I A None U) s"
  "\<not> isolation_available (example_handler I A D False) s"
  "\<not> isolation_available (example_handler I A (Some (example_docker False)) U) s"
  by (simp_all add: isolation_available_def example_handler_def example_docker_def)

text \<open>
  C3 (as amended): when a request passes the validation of the endpoint, the cache probe
  misses, the version policy rejects the versions and no isolation fallback is enabled
  and available, \<^verbatim>\<open>handle\<close> raises the \<^verbatim>\<open>ValueError\<close> of
  \<^verbatim>\<open>_determine_installation_method\<close> and the endpoint answers with status 400, a client
  error, whose detail is the text of that error: the clause \<^verbatim>\<open>except ValueError\<close> of lines
  215 and 216 comes before the clause that answers 500.
\<close>

theorem unsupported_version_client_error:
  assumes "config g = Some cfg" and "g_cache_repository g = Some repository"
    and "parse_custom_args custom_args = Inr custom_args_list"
    and "manager \<in> set [''npm'', ''composer'', ''yarn'']"
    and "identify_files (manifest_names manager) (lockfile_names manager) file =
           Inr (manifest_content', lockfile_content')"
    and "request = \<lparr>req_manager = manager, req_versions = versions_dict,
                     lockfile_content = lockfile_content', manifest_content = manifest_content',
                     req_custom_args = custom_args_list\<rparr>"
    and "handler = api_handler g cfg repository"
    and "\<not> fst (cache_probe handler (calculate_bundle_hash handler request) s)"
    and "\<not> is_version_supported handler manager versions_dict"
    and "\<not> isolation_available handler
             (snd (cache_probe handler (calculate_bundle_hash handler request) s))"
  shows "fst (handle handler request s) = Inl (ValueError (unsupported_message manager)) \<and>
         fst (cache_dependencies g manager hash (Decoded versions_dict) file custom_args s) =
           HTTPException 400 (unsupported_message manager)"
proof -
  have m: "req_manager request = manager" and v: "req_versions request = versions_dict"
    by (simp_all add: assms(6))
  have "fst (handle handler request s) =
          Inl (ValueError (unsupported_message (req_manager request)))"
  proof (rule handle_unsupported)
    show "\<not> fst (cache_probe handler (calculate_bundle_hash handler request) s)"
      by (rule assms(8))
    show "\<not> is_version_supported handler (req_manager request) (req_versions request)"
      unfolding m v by (rule assms(9))
    show "\<not> isolation_available handler
             (snd (cache_probe handler (calculate_bundle_hash handler request) s))"
      by (rule assms(10))
  qed
  then have h: "fst (handle handler request s) = Inl (ValueError (unsupported_message manager))"
    unfolding m .
  have "fst (cache_dependencies g manager hash (Decoded versions_dict) file custom_args s) =
           HTTPException 400 (unsupported_message manager)"
    using h unfolding assms(6,7)
    by (rule cache_dependencies_value_error [OF assms(1,2,3,4,5)])
  with h show ?thesis by (rule conjI)
qed

theorem unsupported_version_client_error_witness:
  "fst (handle (example_handler [] [] None False)
          \<lparr>req_manager = ''npm'', req_versions = versions_node_npm, lockfile_content = ''L'',
           manifest_content = ''{}'', req_custom_args = None\<rparr> ()) =
     Inl (ValueError ''Unsupported npm version and Docker is not available'') \<and>
   fst (cache_dependencies example_globals ''npm'' ''0f'' (Decoded versions_node_npm)
          [\<lparr>filename = Some ''Package.JSON'', file_content = ''{}''\<rparr>,
           \<lparr>filename = Some ''package-lock.json'', file_content = ''L''\<rparr>] None ()) =
     HTTPException 400 ''Unsupported npm version and Docker is not available''"
  using unsupported_version_client_error
      [of example_globals
        "\<lparr>cfg_supported_versions = example_support,
          cfg_use_docker_on_version_mismatch = False, base_url = ''http://localhost:8000''\<rparr>"
        "example_repository [] []" None None "''npm''"
        "[\<lparr>filename = Some ''Package.JSON'', file_content = ''{}''\<rparr>,
          \<lparr>filename = Some ''package-lock.json'', file_content = ''L''\<rparr>]"
        "''{}''" "''L''"
        "\<lparr>req_manager = ''npm'', req_versions = versions_node_npm, lockfile_content = ''L'',
          manifest_content = ''{}'', req_custom_args = None\<rparr>"
        versions_node_npm "example_handler [] [] None False" "()" "''0f''"]
  by (simp add: example_identify_upper example_api_handler example_probe_miss
        example_unsupported example_no_isolation unsupported_message_def
        parse_custom_args_def example_globals_fields)

text \<open>
  A request for \<^verbatim>\<open>npm\<close> with \<^verbatim>\<open>{node: 20.0.0, npm: 10.0.0}\<close> where the support list holds
  \<^verbatim>\<open>{runtime: 18.0.0, package_manager: 9.0.0}\<close> only and there is no isolation: the
  policy rejects it and the endpoint answers 400, not a server error.
\<close>

theorem unsupported_version_counterexample:
  "\<not> is_version_supported (example_handler [] [] None False) ''npm'' versions_node_npm \<and>
   \<not> isolation_available (example_handler [] [] None False) () \<and>
   fst (cache_dependencies example_globals ''npm'' ''abc'' (Decoded versions_node_npm)
          [\<lparr>filename = Some ''package.json'', file_content = ''{}''\<rparr>] None ()) =
     HTTPException 400 ''Unsupported npm version and Docker is not available''"
proof -
  have h: "fst (handle (example_handler [] [] None False)
             \<lparr>req_manager = ''npm'', req_versions = versions_node_npm, lockfile_content = [],
              manifest_content = ''{}'', req_custom_args = None\<rparr> ()) =
           Inl (ValueError (unsupported_message ''npm''))"
    using handle_unsupported [of "example_handler [] [] None False"
        "\<lparr>req_manager = ''npm'', req_versions = versions_node_npm, lockfile_content = [],
          manifest_content = ''{}'', req_custom_args = None\<rparr>" "()"]
    by (simp add: example_probe_miss example_unsupported example_no_isolation)
  have "fst (cache_dependencies example_globals ''npm'' ''abc'' (Decoded versions_node_npm)
          [\<lparr>filename = Some ''package.json'', file_content = ''{}''\<rparr>] None ()) =
     HTTPException 400 (unsupported_message ''npm'')"
  proof (rule cache_dependencies_value_error
          [where cfg = "\<lparr>cfg_supported_versions = example_support,
                  cfg_use_docker_on_version_mismatch = False,
                  base_url = ''http://localhost:8000''\<rparr>"
             and repository = "example_repository [] []" and custom_args_list = None
             and manifest_content' = "''{}''" and lockfile_content' = "[]"])
    show "config example_globals =
            Some \<lparr>cfg_supported_versions = example_support,
                   cfg_use_docker_on_version_mismatch = False,
                   base_url = ''http://localhost:8000''\<rparr>"
      by (rule example_globals_fields)
    show "g_cache_repository example_globals = Some (example_repository [] [])"
      by (rule example_globals_fields)
    show "parse_custom_args None = Inr None"
      by (simp add: parse_custom_args_def)
    show "''npm'' \<in> set [''npm'', ''composer'', ''yarn'']"
      by simp
    show "identify_files (manifest_names ''npm'') (lockfile_names ''npm'')
            [\<lparr>filename = Some ''package.json'', file_content = ''{}''\<rparr>] = Inr (''{}'', [])"
      by (rule example_identify)
    show "fst (handle
            (api_handler example_globals
               \<lparr>cfg_supported_versions = example_support,
                 cfg_use_docker_on_version_mismatch = False,
                 base_url = ''http://localhost:8000''\<rparr> (example_repository [] []))
            \<lparr>req_manager = ''npm'', req_versions = versions_node_npm, lockfile_content = [],
              manifest_content = ''{}'', req_custom_args = None\<rparr> ()) =
          Inl (ValueError (unsupported_message ''npm''))"
      unfolding example_api_handler by (rule h)
  qed
  then show ?thesis
    by (simp add: example_unsupported example_no_isolation unsupported_message_def)
qed

end
